theory Spec2Isabelle
  imports Main
begin

section \<open>Data model\<close>

text \<open>
  Python values that travel between the search engine and \<open>elastinga.crud\<close>: the JSON
  bodies of responses, and the search text (the text of the suggestion tier is read back
  from a response, so it is a value of the same kind). A dict is an association list read
  with \<open>map_of\<close>; numbers are opaque to the code and kept as integers.
\<close>

datatype json =
    JNull
  | JBool bool
  | JNum int
  | JStr string
  | JArr "json list"
  | JObj "(string \<times> json) list"

text \<open>The exceptions that \<open>crud.py\<close> raises itself or lets through from a lookup.\<close>

datatype error =
    ValueError
  | NotImplementedError
  | KeyError
  | IndexError
  | TypeError
  | AttributeError
  | TransportError string

text \<open>
  A filter value is typed \<open>Union[str, List[str]]\<close>; \<open>isinstance(v, str)\<close> is the
  constructor test.
\<close>

datatype fvalue = FStr string | FList "string list"

text \<open>
  The query clauses the code builds with \<open>Q\<close> and \<open>Search.filter\<close>:
  \<open>Q("multi_match", query=text, operator=operator, fields=fields)\<close> and
  \<open>Q(kind, field=value)\<close> with \<open>kind\<close> one of \<open>term\<close>, \<open>terms\<close>.
\<close>

datatype clause =
    MultiMatch json string "string list"
  | FieldQ string string fvalue

text \<open>
  One entry of the suggest section of a request:
  \<open>search.suggest(name, text, kind={"field": field_name, "max_errors": 3})\<close>.
\<close>

record suggester =
  sg_name :: string
  sg_text :: json
  sg_kind :: string
  sg_field :: string
  sg_max_errors :: int

text \<open>
  The \<open>elasticsearch_dsl.Search\<close> object as far as the code drives it: the index it was
  created on, the \<open>_source\<close> projection (\<open>source(includes=..)\<close>, \<open>source(excludes=..)\<close>
  each set their own key), the scoring queries added by \<open>query\<close>, the filter context added
  by \<open>filter\<close>, the \<open>size\<close> parameter set by \<open>params\<close> and the suggest section.
\<close>

record search =
  s_index :: string
  source_includes :: "string list option"
  source_excludes :: "string list option"
  queries :: "clause list"
  filters :: "clause list"
  params_size :: "int option"
  suggest_section :: "suggester list"

text \<open>
  \<open>serialize\<close> accepts \<open>Union[Response, dict]\<close>: the response class of
  \<open>elasticsearch_dsl\<close>, which wraps the body and hands its parts out wrapped again, or the
  plain body of \<open>elasticsearch-py\<close>.
\<close>

datatype response =
    DslResponse "(string \<times> json) list"
  | RawDict "(string \<times> json) list"

text \<open>
  The engine is an external collaborator. Every request sent through the connection is
  appended to a log, and the answer to a request may depend on everything sent so far:
  the connection maps the log, the current request last, to a transport failure or to a
  response body.
\<close>

type_synonym log = "search list"

record bsearch =
  connection :: "log \<Rightarrow> string + (string \<times> json) list"
  index_name :: string

section \<open>Python primitives used by the code\<close>

text \<open>\<open>d[k]\<close> with a string key.\<close>

fun getitem :: "json \<Rightarrow> string \<Rightarrow> error + json" where
  "getitem (JObj kvs) k = (case map_of kvs k of None \<Rightarrow> Inl KeyError | Some v \<Rightarrow> Inr v)"
| "getitem _ k = Inl TypeError"

text \<open>\<open>x[0]\<close>.\<close>

fun getitem0 :: "json \<Rightarrow> error + json" where
  "getitem0 (JArr xs) = (case xs of [] \<Rightarrow> Inl IndexError | x # _ \<Rightarrow> Inr x)"
| "getitem0 (JObj kvs) = Inl KeyError"
| "getitem0 (JStr s) = (case s of [] \<Rightarrow> Inl IndexError | c # _ \<Rightarrow> Inr (JStr [c]))"
| "getitem0 _ = Inl TypeError"

text \<open>
  \<open>x.name\<close> on a wrapped part of a DSL response: a wrapped dict answers with the value
  under the key, everything else has no such attribute.
\<close>

fun getattr :: "json \<Rightarrow> string \<Rightarrow> error + json" where
  "getattr (JObj kvs) k = (case map_of kvs k of None \<Rightarrow> Inl AttributeError | Some v \<Rightarrow> Inr v)"
| "getattr _ k = Inl AttributeError"

text \<open>\<open>hit.to_dict()\<close>: only a wrapped dict has the method; it returns the dict.\<close>

fun to_dict :: "json \<Rightarrow> error + json" where
  "to_dict (JObj kvs) = Inr (JObj kvs)"
| "to_dict _ = Inl AttributeError"

text \<open>\<open>for x in v\<close>: a list gives its elements, a dict its keys, a string its characters.\<close>

fun iter :: "json \<Rightarrow> error + json list" where
  "iter (JArr xs) = Inr xs"
| "iter (JObj kvs) = Inr (map (\<lambda>kv. JStr (fst kv)) kvs)"
| "iter (JStr s) = Inr (map (\<lambda>c. JStr [c]) s)"
| "iter _ = Inl TypeError"

text \<open>\<open>[f(x) for x in xs]\<close> where \<open>f\<close> may raise: the first exception ends the loop.\<close>

fun comprehension :: "('a \<Rightarrow> error + 'b) \<Rightarrow> 'a list \<Rightarrow> error + 'b list" where
  "comprehension f [] = Inr []"
| "comprehension f (x # xs) =
     (case f x of
        Inl e \<Rightarrow> Inl e
      | Inr y \<Rightarrow> (case comprehension f xs of Inl e \<Rightarrow> Inl e | Inr ys \<Rightarrow> Inr (y # ys)))"

section \<open>The search object\<close>

text \<open>\<open>BaseSearch.search_base\<close>: \<open>Search(using=self.connection, index=self.index_name)\<close>.\<close>

definition search_base :: "bsearch \<Rightarrow> search" where
  "search_base self =
     \<lparr>s_index = index_name self, source_includes = None, source_excludes = None,
      queries = [], filters = [], params_size = None, suggest_section = []\<rparr>"

text \<open>\<open>search.filter(kind, field=value)\<close>.\<close>

definition filter_q :: "search \<Rightarrow> string \<Rightarrow> string \<Rightarrow> fvalue \<Rightarrow> search" where
  "filter_q s kind field v = s\<lparr>filters := filters s @ [FieldQ kind field v]\<rparr>"

text \<open>
  \<open>search.execute()\<close>: sends the request, which the log records, and wraps the body in the
  DSL response class; a transport failure is raised to the caller.
\<close>

definition execute :: "bsearch \<Rightarrow> search \<Rightarrow> log \<Rightarrow> (error + response) \<times> log" where
  "execute self s w =
     (let w' = w @ [s]
      in (case connection self w' of
            Inl msg \<Rightarrow> Inl (TransportError msg)
          | Inr d \<Rightarrow> Inr (DslResponse d),
          w'))"

section \<open>Filters\<close>

text \<open>Python truthiness of an \<open>Optional[List[str]]\<close> and of an optional filter value.\<close>

fun truthy_list :: "string list option \<Rightarrow> bool" where
  "truthy_list None = False"
| "truthy_list (Some xs) = (xs \<noteq> [])"

fun truthy_fvalue :: "fvalue option \<Rightarrow> bool" where
  "truthy_fvalue None = False"
| "truthy_fvalue (Some (FStr s)) = (s \<noteq> [])"
| "truthy_fvalue (Some (FList xs)) = (xs \<noteq> [])"

fun isinstance_str :: "fvalue \<Rightarrow> bool" where
  "isinstance_str (FStr s) = True"
| "isinstance_str (FList xs) = False"

text \<open>\<open>TwitterSearch._filter_username_owner\<close>.\<close>

definition filter_username_owner :: "search \<Rightarrow> fvalue \<Rightarrow> search" where
  "filter_username_owner s username_owner =
     filter_q s (if isinstance_str username_owner then ''term'' else ''terms'')
       ''username_owner'' username_owner"

text \<open>\<open>TwitterSearch._filter_username_timeline\<close>.\<close>

definition filter_username_timeline :: "search \<Rightarrow> fvalue \<Rightarrow> search" where
  "filter_username_timeline s username_timeline =
     filter_q s (if isinstance_str username_timeline then ''term'' else ''terms'')
       ''username_timeline'' username_timeline"

text \<open>\<open>InstagramSearch._filter_username\<close>.\<close>

definition filter_username :: "search \<Rightarrow> fvalue \<Rightarrow> search" where
  "filter_username s username =
     filter_q s (if isinstance_str username then ''term'' else ''terms'')
       ''username'' username"

section \<open>Query builder\<close>

text \<open>
  \<open>BaseSearch.construct_multi_field_search\<close>. The argument \<open>size\<close> (here \<open>size_arg\<close>) is \<open>None\<close> when
  the caller leaves it out, and then takes its default 5. \<open>if includes:\<close> and
  \<open>if excludes:\<close> are truthiness tests. The call to the logger has no effect on the
  result.
\<close>

definition construct_multi_field_search ::
  "search \<Rightarrow> json \<Rightarrow> string \<Rightarrow> string list \<Rightarrow> int option \<Rightarrow> string list option
     \<Rightarrow> string list option \<Rightarrow> search" where
  "construct_multi_field_search s0 text operator fs size_arg includes excludes =
     (let sz = (case size_arg of None \<Rightarrow> 5 | Some n \<Rightarrow> n);
          s1 = (if truthy_list includes then s0\<lparr>source_includes := includes\<rparr> else s0);
          s2 = (if truthy_list excludes then s1\<lparr>source_excludes := excludes\<rparr> else s1);
          s3 = s2\<lparr>queries := queries s2 @ [MultiMatch text operator fs]\<rparr>;
          s4 = s3\<lparr>params_size := Some sz\<rparr>
      in s4)"

section \<open>Exceptions pass through\<close>

text \<open>Sequencing of two steps of which the first may raise.\<close>

fun bind_e :: "error + 'a \<Rightarrow> ('a \<Rightarrow> error + 'b) \<Rightarrow> error + 'b" where
  "bind_e (Inl e) f = Inl e"
| "bind_e (Inr x) f = f x"

section \<open>Responses\<close>

text \<open>\<open>isinstance(response, Response)\<close>.\<close>

fun isinstance_Response :: "response \<Rightarrow> bool" where
  "isinstance_Response (DslResponse d) = True"
| "isinstance_Response (RawDict d) = False"

text \<open>\<open>response[k]\<close>: both shapes answer with the value under the key.\<close>

fun resp_getitem :: "response \<Rightarrow> string \<Rightarrow> error + json" where
  "resp_getitem (DslResponse d) k = getitem (JObj d) k"
| "resp_getitem (RawDict d) k = getitem (JObj d) k"

text \<open>
  \<open>response.name\<close>: the DSL response answers with the value under the key; a plain dict
  has no such attribute.
\<close>

fun resp_getattr :: "response \<Rightarrow> string \<Rightarrow> error + json" where
  "resp_getattr (DslResponse d) k = getattr (JObj d) k"
| "resp_getattr (RawDict d) k = Inl AttributeError"

text \<open>\<open>hasattr(response, name)\<close>: whether the attribute access succeeds.\<close>

definition hasattr :: "response \<Rightarrow> string \<Rightarrow> bool" where
  "hasattr r k = (case resp_getattr r k of Inl e \<Rightarrow> False | Inr v \<Rightarrow> True)"

section \<open>Suggestion resolver\<close>

text \<open>
  \<open>BaseSearch.suggest\<close>. The check of \<open>suggestion_type\<close> comes before the request is
  sent. After \<open>execute\<close>: \<open>NotImplementedError\<close> when the response has no \<open>suggest\<close>
  attribute, else the texts of \<open>response.suggest[suggestion_name][0].options\<close>.
\<close>

definition suggest ::
  "bsearch \<Rightarrow> json \<Rightarrow> string \<Rightarrow> string \<Rightarrow> string \<Rightarrow> log \<Rightarrow> (error + json list) \<times> log" where
  "suggest self text field_name suggestion_type suggestion_name w =
     (let s = search_base self
      in if suggestion_type \<notin> set [''phrase'', ''term''] then (Inl ValueError, w)
         else
           let s' =
             (if suggestion_type = ''phrase'' then
                s\<lparr>suggest_section := suggest_section s @
                    [\<lparr>sg_name = suggestion_name, sg_text = text, sg_kind = ''phrase'',
                      sg_field = field_name, sg_max_errors = 3\<rparr>]\<rparr>
              else if suggestion_type = ''term'' then
                s\<lparr>suggest_section := suggest_section s @
                    [\<lparr>sg_name = suggestion_name, sg_text = text, sg_kind = ''term'',
                      sg_field = field_name, sg_max_errors = 3\<rparr>]\<rparr>
              else s)
           in (case execute self s' w of
                 (Inl e, w') \<Rightarrow> (Inl e, w')
               | (Inr response, w') \<Rightarrow>
                   (if \<not> hasattr response ''suggest'' then Inl NotImplementedError
                    else
                      bind_e (resp_getattr response ''suggest'') (\<lambda>suggestions.
                      bind_e (getitem suggestions suggestion_name) (\<lambda>entries.
                      bind_e (getitem0 entries) (\<lambda>first.
                      bind_e (getattr first ''options'') (\<lambda>options.
                      bind_e (iter options) (\<lambda>os.
                      comprehension (\<lambda>sg. getattr sg ''text'') os))))),
                    w')))"

section \<open>Result normalizer\<close>

text \<open>\<open>BaseSearch._hit_dsl_conversor\<close>.\<close>

definition hit_dsl_conversor :: "json \<Rightarrow> bool \<Rightarrow> error + json" where
  "hit_dsl_conversor hit include_meta =
     (if include_meta then to_dict hit
      else bind_e (to_dict hit) (\<lambda>d. getitem d ''_source''))"

text \<open>\<open>BaseSearch._hit_conversor\<close>.\<close>

definition hit_conversor :: "json \<Rightarrow> bool \<Rightarrow> error + json" where
  "hit_conversor hit include_meta =
     (if include_meta then Inr hit else getitem hit ''_source'')"

text \<open>
  \<open>BaseSearch.serialize\<close>: the conversor is chosen by the class of the response, the hits
  are \<open>response["hits"]["hits"]\<close> for both shapes, and each hit is converted in turn.
\<close>

definition serialize :: "response \<Rightarrow> bool \<Rightarrow> error + json list" where
  "serialize response include_meta =
     (let conversor =
            (if isinstance_Response response then hit_dsl_conversor else hit_conversor)
      in bind_e (resp_getitem response ''hits'') (\<lambda>outer.
         bind_e (getitem outer ''hits'') (\<lambda>hits.
         bind_e (iter hits) (\<lambda>hs.
         comprehension (\<lambda>hit. conversor hit include_meta) hs))))"

section \<open>Search resolver\<close>

text \<open>
  The keyword arguments of \<open>TwitterSearch._search_post\<close>; \<open>tw_search_size = None\<close>
  stands for a call without \<open>search_size\<close>, which then is 5.
\<close>

record twitter_kwargs =
  tw_search_size :: "int option"
  tw_username_owner :: "fvalue option"
  tw_username_timeline :: "fvalue option"
  tw_includes :: "string list option"
  tw_excludes :: "string list option"
  tw_include_meta :: bool

text \<open>The keyword arguments of \<open>InstagramSearch._search_post\<close>.\<close>

record instagram_kwargs =
  ig_search_size :: "int option"
  ig_username :: "fvalue option"
  ig_includes :: "string list option"
  ig_excludes :: "string list option"
  ig_include_meta :: bool

text \<open>
  \<open>TwitterSearch._search_post\<close>: both filters are tested with \<open>is not None\<close>, the
  timeline filter first.
\<close>

definition twitter_u_search_post ::
  "bsearch \<Rightarrow> json \<Rightarrow> string \<Rightarrow> twitter_kwargs \<Rightarrow> log \<Rightarrow> (error + json list) \<times> log" where
  "twitter_u_search_post self text search_operator kw w =
     (let search_size = (case tw_search_size kw of None \<Rightarrow> 5 | Some n \<Rightarrow> n);
          sb0 = search_base self;
          sb1 = (case tw_username_timeline kw of
                   None \<Rightarrow> sb0
                 | Some v \<Rightarrow> filter_username_timeline sb0 v);
          sb2 = (case tw_username_owner kw of
                   None \<Rightarrow> sb1
                 | Some v \<Rightarrow> filter_username_owner sb1 v);
          s = construct_multi_field_search sb2 text search_operator [''text'']
                (Some search_size) (tw_includes kw) (tw_excludes kw)
      in (case execute self s w of
            (Inl e, w') \<Rightarrow> (Inl e, w')
          | (Inr response, w') \<Rightarrow> (serialize response (tw_include_meta kw), w')))"

text \<open>\<open>InstagramSearch._search_post\<close>: the filter is tested with \<open>if username:\<close>.\<close>

definition instagram_u_search_post ::
  "bsearch \<Rightarrow> json \<Rightarrow> string \<Rightarrow> instagram_kwargs \<Rightarrow> log \<Rightarrow> (error + json list) \<times> log" where
  "instagram_u_search_post self text search_operator kw w =
     (let search_size = (case ig_search_size kw of None \<Rightarrow> 5 | Some n \<Rightarrow> n);
          sb0 = search_base self;
          sb1 = (if truthy_fvalue (ig_username kw)
                 then (case ig_username kw of
                         None \<Rightarrow> sb0
                       | Some v \<Rightarrow> filter_username sb0 v)
                 else sb0);
          s = construct_multi_field_search sb1 text search_operator [''text'']
                (Some search_size) (ig_includes kw) (ig_excludes kw)
      in (case execute self s w of
            (Inl e, w') \<Rightarrow> (Inl e, w')
          | (Inr response, w') \<Rightarrow> (serialize response (ig_include_meta kw), w')))"

text \<open>
  \<open>BaseSearch.suggest_post\<close>. The abstract method \<open>_search_post\<close> of the class at hand
  is the first argument.
\<close>

definition suggest_post ::
  "(json \<Rightarrow> string \<Rightarrow> 'kw \<Rightarrow> log \<Rightarrow> (error + json list) \<times> log) \<Rightarrow> bsearch \<Rightarrow> json \<Rightarrow> 'kw
     \<Rightarrow> log \<Rightarrow> (error + json list) \<times> log" where
  "suggest_post u_search_post self text kw w =
     (case suggest self text ''text'' ''phrase'' ''post_suggest'' w of
        (Inl e, w1) \<Rightarrow> (Inl e, w1)
      | (Inr suggested_text, w1) \<Rightarrow>
          (case suggested_text of
             [] \<Rightarrow> (Inr [], w1)
           | t # _ \<Rightarrow> u_search_post t ''or'' kw w1))"

text \<open>\<open>BaseSearch.search_post\<close>; \<open>if posts:\<close> is the test for a non-empty list.\<close>

definition search_post ::
  "(json \<Rightarrow> string \<Rightarrow> 'kw \<Rightarrow> log \<Rightarrow> (error + json list) \<times> log) \<Rightarrow> bsearch \<Rightarrow> json \<Rightarrow> 'kw
     \<Rightarrow> log \<Rightarrow> (error + json list) \<times> log" where
  "search_post u_search_post self text kw w =
     (case u_search_post text ''and'' kw w of
        (Inl e, w1) \<Rightarrow> (Inl e, w1)
      | (Inr posts, w1) \<Rightarrow>
          if posts \<noteq> [] then (Inr posts, w1)
          else
            (case u_search_post text ''or'' kw w1 of
               (Inl e, w2) \<Rightarrow> (Inl e, w2)
             | (Inr posts2, w2) \<Rightarrow>
                 if posts2 \<noteq> [] then (Inr posts2, w2)
                 else suggest_post u_search_post self text kw w2))"

text \<open>\<open>search_post\<close> as \<open>TwitterSearch\<close> and \<open>InstagramSearch\<close> inherit it.\<close>

definition twitter_search_post ::
  "bsearch \<Rightarrow> json \<Rightarrow> twitter_kwargs \<Rightarrow> log \<Rightarrow> (error + json list) \<times> log" where
  "twitter_search_post self = search_post (twitter_u_search_post self) self"

definition instagram_search_post ::
  "bsearch \<Rightarrow> json \<Rightarrow> instagram_kwargs \<Rightarrow> log \<Rightarrow> (error + json list) \<times> log" where
  "instagram_search_post self = search_post (instagram_u_search_post self) self"

section \<open>Vocabulary of the properties\<close>

text \<open>The kind of the clause a filter function adds last.\<close>

fun clause_kind :: "clause \<Rightarrow> string" where
  "clause_kind (MultiMatch t operator fs) = ''multi_match''"
| "clause_kind (FieldQ kind field v) = kind"

text \<open>
  The hit list of a response, \<open>response["hits"]["hits"]\<close>, as \<open>serialize\<close> reads it.
\<close>

definition response_hits :: "response \<Rightarrow> error + json" where
  "response_hits r = bind_e (resp_getitem r ''hits'') (\<lambda>outer. getitem outer ''hits'')"

text \<open>
  Whether a value is a dict, and whether it is a dict holding a key; the value under a
  key (\<open>JNull\<close> where there is none).
\<close>

fun has_key :: "json \<Rightarrow> string \<Rightarrow> bool" where
  "has_key (JObj kvs) k = (map_of kvs k \<noteq> None)"
| "has_key _ k = False"

fun is_dict :: "json \<Rightarrow> bool" where
  "is_dict (JObj kvs) = True"
| "is_dict _ = False"

fun value_at :: "json \<Rightarrow> string \<Rightarrow> json" where
  "value_at (JObj kvs) k = (case map_of kvs k of None \<Rightarrow> JNull | Some b \<Rightarrow> b)"
| "value_at _ k = JNull"

fun the_source :: "json \<Rightarrow> json" where
  "the_source (JObj kvs) = (case map_of kvs ''_source'' of None \<Rightarrow> JNull | Some b \<Rightarrow> b)"
| "the_source _ = JNull"

text \<open>
  The envelope fields the engine adds to every hit. A well-formed hit is a dict with the
  envelope fields and a \<open>_source\<close> that is a dict of document fields; the engine
  reserves the envelope names, so no document field carries one.
\<close>

definition envelope_fields :: "string list" where
  "envelope_fields = [''_id'', ''_score'', ''_index'']"

definition wf_hit :: "json \<Rightarrow> bool" where
  "wf_hit h = (list_all (has_key h) (''_source'' # envelope_fields)
     \<and> is_dict (the_source h)
     \<and> list_all (\<lambda>k. \<not> has_key (the_source h) k) envelope_fields)"

text \<open>
  The request that \<open>suggest\<close> sends: the base search with one entry in its suggest
  section.
\<close>

definition suggest_request :: "bsearch \<Rightarrow> json \<Rightarrow> string \<Rightarrow> string \<Rightarrow> string \<Rightarrow> search" where
  "suggest_request self text field_name suggestion_type suggestion_name =
     \<lparr>s_index = index_name self, source_includes = None, source_excludes = None,
      queries = [], filters = [], params_size = None,
      suggest_section =
        [\<lparr>sg_name = suggestion_name, sg_text = text, sg_kind = suggestion_type,
          sg_field = field_name, sg_max_errors = 3\<rparr>]\<rparr>"

text \<open>
  The requests that \<open>TwitterSearch._search_post\<close> and
  \<open>InstagramSearch._search_post\<close> send, written out field by field. That the code
  builds exactly these is proved below (\<open>twitter_u_search_post_eq\<close>,
  \<open>instagram_u_search_post_eq\<close>).
\<close>

definition filter_kind :: "fvalue \<Rightarrow> string" where
  "filter_kind v = (case v of FStr s \<Rightarrow> ''term'' | FList xs \<Rightarrow> ''terms'')"

definition twitter_request :: "bsearch \<Rightarrow> json \<Rightarrow> string \<Rightarrow> twitter_kwargs \<Rightarrow> search" where
  "twitter_request self text operator kw =
     \<lparr>s_index = index_name self,
      source_includes = (if truthy_list (tw_includes kw) then tw_includes kw else None),
      source_excludes = (if truthy_list (tw_excludes kw) then tw_excludes kw else None),
      queries = [MultiMatch text operator [''text'']],
      filters =
        (case tw_username_timeline kw of
           None \<Rightarrow> []
         | Some v \<Rightarrow> [FieldQ (filter_kind v) ''username_timeline'' v]) @
        (case tw_username_owner kw of
           None \<Rightarrow> []
         | Some v \<Rightarrow> [FieldQ (filter_kind v) ''username_owner'' v]),
      params_size = Some (case tw_search_size kw of None \<Rightarrow> 5 | Some n \<Rightarrow> n),
      suggest_section = []\<rparr>"

definition instagram_request :: "bsearch \<Rightarrow> json \<Rightarrow> string \<Rightarrow> instagram_kwargs \<Rightarrow> search" where
  "instagram_request self text operator kw =
     \<lparr>s_index = index_name self,
      source_includes = (if truthy_list (ig_includes kw) then ig_includes kw else None),
      source_excludes = (if truthy_list (ig_excludes kw) then ig_excludes kw else None),
      queries = [MultiMatch text operator [''text'']],
      filters =
        (case ig_username kw of
           None \<Rightarrow> []
         | Some v \<Rightarrow> if truthy_fvalue (Some v) then [FieldQ (filter_kind v) ''username'' v] else []),
      params_size = Some (case ig_search_size kw of None \<Rightarrow> 5 | Some n \<Rightarrow> n),
      suggest_section = []\<rparr>"

section \<open>A small engine for worked examples\<close>

text \<open>
  One post with the text \<open>happy\<close>. The engine answers a suggest request with the
  correction \<open>happy\<close> for \<open>hapy\<close>, finds the post for the text \<open>happy\<close> with
  either operator and for \<open>happy day\<close> with \<open>or\<close> only, and finds nothing
  otherwise. The second engine holds an index without documents and never returns a
  suggest section.
\<close>

definition demo_source :: json where
  "demo_source = JObj [(''text'', JStr ''happy'')]"

definition demo_hit :: json where
  "demo_hit =
     JObj [(''_index'', JStr ''tw''), (''_id'', JStr ''1''), (''_score'', JNum 1),
           (''_source'', demo_source)]"

definition demo_body :: "json list \<Rightarrow> (string \<times> json) list" where
  "demo_body hs = [(''hits'', JObj [(''hits'', JArr hs)])]"

definition demo_suggest_body :: "(string \<times> json) list" where
  "demo_suggest_body =
     [(''suggest'',
       JObj [(''post_suggest'',
              JArr [JObj [(''text'', JStr ''hapy''),
                          (''options'', JArr [JObj [(''text'', JStr ''happy'')]])]])])]"

definition demo_connection :: "log \<Rightarrow> string + (string \<times> json) list" where
  "demo_connection w =
     (if w = [] then Inl ''no request''
      else if suggest_section (last w) \<noteq> [] then Inr demo_suggest_body
      else if queries (last w) = [MultiMatch (JStr ''happy'') ''and'' [''text'']]
            \<or> queries (last w) = [MultiMatch (JStr ''happy'') ''or'' [''text'']]
            \<or> queries (last w) = [MultiMatch (JStr ''happy day'') ''or'' [''text'']]
      then Inr (demo_body [demo_hit])
      else Inr (demo_body []))"

definition demo_self :: bsearch where
  "demo_self = \<lparr>connection = demo_connection, index_name = ''tw''\<rparr>"

definition empty_index_self :: bsearch where
  "empty_index_self = \<lparr>connection = (\<lambda>w. Inr (demo_body [])), index_name = ''ig''\<rparr>"

definition demo_twitter_kwargs :: twitter_kwargs where
  "demo_twitter_kwargs =
     \<lparr>tw_search_size = None, tw_username_owner = Some (FStr ''alice''),
      tw_username_timeline = None, tw_includes = None, tw_excludes = None,
      tw_include_meta = False\<rparr>"

definition demo_instagram_kwargs :: instagram_kwargs where
  "demo_instagram_kwargs =
     \<lparr>ig_search_size = None, ig_username = Some (FStr []), ig_includes = None,
      ig_excludes = None, ig_include_meta = False\<rparr>"

section \<open>Lemmas on the primitives\<close>

lemma comprehension_map:
  "\<forall>x\<in>set xs. f x = Inr (g x) \<Longrightarrow> comprehension f xs = Inr (map g xs)"
  by (induction xs) simp_all

lemma comprehension_cong:
  "\<forall>x\<in>set xs. f x = g x \<Longrightarrow> comprehension f xs = comprehension g xs"
  by (induction xs) (simp_all split: sum.splits)

lemma has_source_getitem: "has_key h ''_source'' \<Longrightarrow> getitem h ''_source'' = Inr (the_source h)"
  by (cases h) auto

lemma has_key_getattr: "has_key x k \<Longrightarrow> getattr x k = Inr (value_at x k)"
  by (cases x) auto

lemma has_key_is_dict: "has_key h k \<Longrightarrow> is_dict h"
  by (cases h) simp_all

lemma getitem_not_ValueError: "getitem x k \<noteq> Inl ValueError"
  by (cases x) (simp_all split: option.splits)

lemma getattr_not_ValueError: "getattr x k \<noteq> Inl ValueError"
  by (cases x) (simp_all split: option.splits)

lemma getitem0_not_ValueError: "getitem0 x \<noteq> Inl ValueError"
  by (cases x) (simp_all split: list.splits)

lemma iter_not_ValueError: "iter x \<noteq> Inl ValueError"
  by (cases x) simp_all

lemma comprehension_not_ValueError:
  "\<forall>x. f x \<noteq> Inl ValueError \<Longrightarrow> comprehension f xs \<noteq> Inl ValueError"
  by (induction xs) (auto split: sum.splits)

lemma bind_e_ValueError:
  "bind_e m f = Inl ValueError \<Longrightarrow> m = Inl ValueError \<or> (\<exists>x. m = Inr x \<and> f x = Inl ValueError)"
  by (cases m) simp_all

lemma resp_getattr_not_ValueError: "resp_getattr r k \<noteq> Inl ValueError"
  by (cases r) (simp_all split: option.splits)

section \<open>Lemmas on the result normalizer\<close>

lemma serialize_hits:
  "response_hits r = Inr (JArr hs) \<Longrightarrow>
   serialize r m = comprehension (\<lambda>hit. (if isinstance_Response r then hit_dsl_conversor else hit_conversor) hit m) hs"
  by (cases r; cases "getitem (JObj (case r of DslResponse d \<Rightarrow> d | RawDict d \<Rightarrow> d)) ''hits''")
     (simp_all add: serialize_def response_hits_def)

lemma conv_meta: "is_dict h \<Longrightarrow> hit_dsl_conversor h True = Inr h \<and> hit_conversor h True = Inr h"
  by (cases h) (simp_all add: hit_dsl_conversor_def hit_conversor_def)

lemma conv_body: "has_key h ''_source'' \<Longrightarrow>
   hit_dsl_conversor h False = Inr (the_source h) \<and> hit_conversor h False = Inr (the_source h)"
  by (cases h) (auto simp add: hit_dsl_conversor_def hit_conversor_def)

lemma dsl_raw_conv: "is_dict h \<Longrightarrow> hit_dsl_conversor h m = hit_conversor h m"
  by (cases h) (simp_all add: hit_dsl_conversor_def hit_conversor_def)

lemma serialize_records:
  assumes "response_hits r = Inr (JArr hs)"
    and "list_all (\<lambda>h. has_key h ''_source'') hs"
  shows "serialize r include_meta = Inr (map (\<lambda>h. if include_meta then h else the_source h) hs)
    \<and> (hs = [] \<longrightarrow> serialize r include_meta = Inr [])"
proof -
  have "comprehension (\<lambda>hit. (if isinstance_Response r then hit_dsl_conversor else hit_conversor) hit include_meta) hs
     = Inr (map (\<lambda>h. if include_meta then h else the_source h) hs)"
    using assms(2)
    by (intro comprehension_map) (auto simp: list_all_iff conv_meta conv_body has_key_is_dict)
  then show ?thesis by (auto simp add: serialize_hits [OF assms(1)])
qed

section \<open>Lemmas on the suggestion resolver\<close>

lemma suggest_invalid:
  "suggestion_type \<noteq> ''phrase'' \<Longrightarrow> suggestion_type \<noteq> ''term'' \<Longrightarrow>
   suggest self text field_name suggestion_type suggestion_name w = (Inl ValueError, w)"
  by (simp add: suggest_def)

lemma suggest_log:
  "suggestion_type = ''phrase'' \<or> suggestion_type = ''term'' \<Longrightarrow>
   snd (suggest self text field_name suggestion_type suggestion_name w)
     = w @ [suggest_request self text field_name suggestion_type suggestion_name]"
  by (auto simp add: suggest_def execute_def suggest_request_def search_base_def Let_def
      split: sum.splits)

lemma suggest_valid_no_ValueError:
  assumes "suggestion_type = ''phrase'' \<or> suggestion_type = ''term''"
  shows "fst (suggest self text field_name suggestion_type suggestion_name w) \<noteq> Inl ValueError"
proof -
  let ?ex = "\<lambda>response.
     bind_e (resp_getattr response ''suggest'') (\<lambda>suggestions.
     bind_e (getitem suggestions suggestion_name) (\<lambda>entries.
     bind_e (getitem0 entries) (\<lambda>first.
     bind_e (getattr first ''options'') (\<lambda>options.
     bind_e (iter options) (\<lambda>os.
     comprehension (\<lambda>sg. getattr sg ''text'') os)))))"
  have ex: "?ex response \<noteq> Inl ValueError" for response
    by (auto dest!: bind_e_ValueError
        simp: resp_getattr_not_ValueError getitem_not_ValueError getitem0_not_ValueError
          getattr_not_ValueError iter_not_ValueError comprehension_not_ValueError)
  show ?thesis
    using assms ex
    by (auto simp add: suggest_def execute_def Let_def split: sum.splits)
qed

lemma suggest_eq:
  assumes "suggestion_type = ''phrase'' \<or> suggestion_type = ''term''"
    and "connection self (w @ [suggest_request self text field_name suggestion_type suggestion_name]) = Inr d"
  shows "suggest self text field_name suggestion_type suggestion_name w =
     (if map_of d ''suggest'' = None then Inl NotImplementedError
      else
        bind_e (getattr (JObj d) ''suggest'') (\<lambda>suggestions.
        bind_e (getitem suggestions suggestion_name) (\<lambda>entries.
        bind_e (getitem0 entries) (\<lambda>first.
        bind_e (getattr first ''options'') (\<lambda>options.
        bind_e (iter options) (\<lambda>os.
        comprehension (\<lambda>sg. getattr sg ''text'') os))))),
      w @ [suggest_request self text field_name suggestion_type suggestion_name])"
proof -
  have req:
    "(if suggestion_type = ''phrase'' then
        (search_base self)\<lparr>suggest_section := suggest_section (search_base self) @
            [\<lparr>sg_name = suggestion_name, sg_text = text, sg_kind = ''phrase'',
              sg_field = field_name, sg_max_errors = 3\<rparr>]\<rparr>
      else if suggestion_type = ''term'' then
        (search_base self)\<lparr>suggest_section := suggest_section (search_base self) @
            [\<lparr>sg_name = suggestion_name, sg_text = text, sg_kind = ''term'',
              sg_field = field_name, sg_max_errors = 3\<rparr>]\<rparr>
      else search_base self)
     = suggest_request self text field_name suggestion_type suggestion_name"
    using assms(1) by (auto simp add: suggest_request_def search_base_def)
  have valid: "suggestion_type \<in> set [''phrase'', ''term'']"
    using assms(1) by auto
  have ex: "execute self (suggest_request self text field_name suggestion_type suggestion_name) w
      = (Inr (DslResponse d),
         w @ [suggest_request self text field_name suggestion_type suggestion_name])"
    using assms(2) by (simp add: execute_def)
  have has: "hasattr (DslResponse d) ''suggest'' = (map_of d ''suggest'' \<noteq> None)"
    by (simp add: hasattr_def split: option.splits)
  show ?thesis
    unfolding suggest_def Let_def req
    by (simp only: valid ex has not_True_eq_False if_False split_conv sum.case
        resp_getattr.simps not_not)
qed

lemma suggest_present:
  assumes "suggestion_type = ''phrase'' \<or> suggestion_type = ''term''"
    and "connection self (w @ [suggest_request self text field_name suggestion_type suggestion_name]) = Inr d"
    and "map_of d ''suggest'' = Some suggestions"
    and "getitem suggestions suggestion_name = Inr (JArr (first # rest))"
    and "getattr first ''options'' = Inr (JArr opts)"
    and "list_all (\<lambda>x. has_key x ''text'') opts"
  shows "suggest self text field_name suggestion_type suggestion_name w =
     (Inr (map (\<lambda>x. value_at x ''text'') opts),
      w @ [suggest_request self text field_name suggestion_type suggestion_name])"
proof -
  have "comprehension (\<lambda>sg. getattr sg ''text'') opts = Inr (map (\<lambda>x. value_at x ''text'') opts)"
    using assms(6) by (intro comprehension_map) (simp add: list_all_iff has_key_getattr)
  then show ?thesis
    using assms(3,4,5) by (simp add: suggest_eq [OF assms(1,2)])
qed

lemma suggest_phrase_log:
  "suggest self text ''text'' ''phrase'' ''post_suggest'' w = (r, w') \<Longrightarrow>
   w' = w @ [suggest_request self text ''text'' ''phrase'' ''post_suggest'']"
  using suggest_log [of "''phrase''" self "text" "''text''" "''post_suggest''" w] by simp

section \<open>Lemmas on the search resolver\<close>

lemma filter_kind_isinstance:
  "(if isinstance_str v then ''term'' else ''terms'') = filter_kind v"
  by (cases v) (simp_all add: filter_kind_def)

lemma twitter_built:
  "construct_multi_field_search
     (case tw_username_owner kw of
        None \<Rightarrow> (case tw_username_timeline kw of
                   None \<Rightarrow> search_base self
                 | Some v \<Rightarrow> filter_username_timeline (search_base self) v)
      | Some v' \<Rightarrow> filter_username_owner
          (case tw_username_timeline kw of
             None \<Rightarrow> search_base self
           | Some v \<Rightarrow> filter_username_timeline (search_base self) v) v')
     text operator [''text'']
     (Some (case tw_search_size kw of None \<Rightarrow> 5 | Some n \<Rightarrow> n)) (tw_includes kw) (tw_excludes kw)
   = twitter_request self text operator kw"
  by (simp add: construct_multi_field_search_def twitter_request_def search_base_def
      filter_username_owner_def filter_username_timeline_def filter_q_def
      filter_kind_isinstance Let_def split: option.splits)

lemma twitter_u_search_post_eq:
  "twitter_u_search_post self text operator kw w =
     (case connection self (w @ [twitter_request self text operator kw]) of
        Inl msg \<Rightarrow> Inl (TransportError msg)
      | Inr d \<Rightarrow> serialize (DslResponse d) (tw_include_meta kw),
      w @ [twitter_request self text operator kw])"
  unfolding twitter_u_search_post_def Let_def twitter_built execute_def
  by (simp split: sum.splits)

lemma instagram_built:
  "construct_multi_field_search
     (if truthy_fvalue (ig_username kw)
      then (case ig_username kw of
              None \<Rightarrow> search_base self
            | Some v \<Rightarrow> filter_username (search_base self) v)
      else search_base self)
     text operator [''text'']
     (Some (case ig_search_size kw of None \<Rightarrow> 5 | Some n \<Rightarrow> n)) (ig_includes kw) (ig_excludes kw)
   = instagram_request self text operator kw"
  by (simp add: construct_multi_field_search_def instagram_request_def search_base_def
      filter_username_def filter_q_def filter_kind_isinstance Let_def split: option.splits)

lemma instagram_u_search_post_eq:
  "instagram_u_search_post self text operator kw w =
     (case connection self (w @ [instagram_request self text operator kw]) of
        Inl msg \<Rightarrow> Inl (TransportError msg)
      | Inr d \<Rightarrow> serialize (DslResponse d) (ig_include_meta kw),
      w @ [instagram_request self text operator kw])"
  unfolding instagram_u_search_post_def Let_def instagram_built execute_def
  by (simp split: sum.splits)

lemma twitter_tier:
  "connection self (w @ [twitter_request self text operator kw]) = Inr d \<Longrightarrow>
   twitter_u_search_post self text operator kw w =
     (serialize (DslResponse d) (tw_include_meta kw), w @ [twitter_request self text operator kw])"
  by (simp add: twitter_u_search_post_eq)

lemma instagram_tier:
  "connection self (w @ [instagram_request self text operator kw]) = Inr d \<Longrightarrow>
   instagram_u_search_post self text operator kw w =
     (serialize (DslResponse d) (ig_include_meta kw), w @ [instagram_request self text operator kw])"
  by (simp add: instagram_u_search_post_eq)

lemma search_post_and:
  "u text ''and'' kw w = (Inr posts, w1) \<Longrightarrow> posts \<noteq> [] \<Longrightarrow>
   search_post u self text kw w = (Inr posts, w1)"
  by (simp add: search_post_def)

lemma search_post_or:
  "u text ''and'' kw w = (Inr [], w1) \<Longrightarrow> u text ''or'' kw w1 = (Inr posts, w2) \<Longrightarrow>
   posts \<noteq> [] \<Longrightarrow> search_post u self text kw w = (Inr posts, w2)"
  by (simp add: search_post_def)

lemma search_post_suggest:
  "u text ''and'' kw w = (Inr [], w1) \<Longrightarrow> u text ''or'' kw w1 = (Inr [], w2) \<Longrightarrow>
   search_post u self text kw w = suggest_post u self text kw w2"
  by (simp add: search_post_def)

lemma suggest_post_error:
  "suggest self text ''text'' ''phrase'' ''post_suggest'' w2 = (Inl e, w3) \<Longrightarrow>
   suggest_post u self text kw w2 = (Inl e, w3)"
  by (simp add: suggest_post_def)

lemma suggest_post_none:
  "suggest self text ''text'' ''phrase'' ''post_suggest'' w2 = (Inr [], w3) \<Longrightarrow>
   suggest_post u self text kw w2 = (Inr [], w3)"
  by (simp add: suggest_post_def)

lemma suggest_post_some:
  "suggest self text ''text'' ''phrase'' ''post_suggest'' w2 = (Inr (c # cs), w3) \<Longrightarrow>
   suggest_post u self text kw w2 = u c ''or'' kw w3"
  by (simp add: suggest_post_def)

lemma twitter_both_empty:
  assumes "connection self (w @ [twitter_request self text ''and'' tkw]) = Inr d1"
    and "serialize (DslResponse d1) (tw_include_meta tkw) = Inr []"
    and "connection self
          (w @ [twitter_request self text ''and'' tkw, twitter_request self text ''or'' tkw])
         = Inr d2"
    and "serialize (DslResponse d2) (tw_include_meta tkw) = Inr []"
  shows "twitter_search_post self text tkw w
    = suggest_post (twitter_u_search_post self) self text tkw
        (w @ [twitter_request self text ''and'' tkw, twitter_request self text ''or'' tkw])"
proof -
  have t1: "twitter_u_search_post self text ''and'' tkw w
      = (Inr [], w @ [twitter_request self text ''and'' tkw])"
    using assms(1,2) by (simp add: twitter_u_search_post_eq)
  have t2: "twitter_u_search_post self text ''or'' tkw (w @ [twitter_request self text ''and'' tkw])
      = (Inr [], w @ [twitter_request self text ''and'' tkw, twitter_request self text ''or'' tkw])"
    using assms(3,4) by (simp add: twitter_u_search_post_eq)
  show ?thesis
    unfolding twitter_search_post_def
    by (rule search_post_suggest [where u = "twitter_u_search_post self", OF t1 t2])
qed

lemma instagram_both_empty:
  assumes "connection self (w @ [instagram_request self text ''and'' ikw]) = Inr d1"
    and "serialize (DslResponse d1) (ig_include_meta ikw) = Inr []"
    and "connection self
          (w @ [instagram_request self text ''and'' ikw, instagram_request self text ''or'' ikw])
         = Inr d2"
    and "serialize (DslResponse d2) (ig_include_meta ikw) = Inr []"
  shows "instagram_search_post self text ikw w
    = suggest_post (instagram_u_search_post self) self text ikw
        (w @ [instagram_request self text ''and'' ikw, instagram_request self text ''or'' ikw])"
proof -
  have t1: "instagram_u_search_post self text ''and'' ikw w
      = (Inr [], w @ [instagram_request self text ''and'' ikw])"
    using assms(1,2) by (simp add: instagram_u_search_post_eq)
  have t2: "instagram_u_search_post self text ''or'' ikw (w @ [instagram_request self text ''and'' ikw])
      = (Inr [], w @ [instagram_request self text ''and'' ikw, instagram_request self text ''or'' ikw])"
    using assms(3,4) by (simp add: instagram_u_search_post_eq)
  show ?thesis
    unfolding instagram_search_post_def
    by (rule search_post_suggest [where u = "instagram_u_search_post self", OF t1 t2])
qed

section \<open>Lemmas on the worked examples\<close>

lemma demo_hits: "response_hits (RawDict (demo_body hs)) = Inr (JArr hs)"
  "response_hits (DslResponse (demo_body hs)) = Inr (JArr hs)"
  by (simp_all add: response_hits_def demo_body_def)

lemma demo_hit_wf: "wf_hit demo_hit"
  by (simp add: wf_hit_def demo_hit_def demo_source_def envelope_fields_def)

lemma demo_serialize_empty: "serialize (DslResponse (demo_body [])) m = Inr []"
  by (simp add: serialize_def demo_body_def)

lemma demo_serialize_hit: "serialize (DslResponse (demo_body [demo_hit])) False = Inr [demo_source]"
  by (simp add: serialize_def demo_body_def demo_hit_def hit_dsl_conversor_def)

lemma demo_tier:
  "connection demo_self (w @ [twitter_request demo_self t operator demo_twitter_kwargs])
     = (if (t = JStr ''happy'' \<and> (operator = ''and'' \<or> operator = ''or''))
           \<or> (t = JStr ''happy day'' \<and> operator = ''or'')
        then Inr (demo_body [demo_hit]) else Inr (demo_body []))"
  by (simp add: demo_self_def demo_connection_def twitter_request_def)

lemma demo_suggest:
  "suggest demo_self (JStr ''hapy'') ''text'' ''phrase'' ''post_suggest'' w
     = (Inr [JStr ''happy''],
        w @ [suggest_request demo_self (JStr ''hapy'') ''text'' ''phrase'' ''post_suggest''])"
proof -
  have c: "connection demo_self
      (w @ [suggest_request demo_self (JStr ''hapy'') ''text'' ''phrase'' ''post_suggest''])
      = Inr demo_suggest_body"
    by (simp add: demo_self_def demo_connection_def suggest_request_def)
  have v: "''phrase'' = ''phrase'' \<or> ''phrase'' = ''term''" by simp
  show ?thesis
    unfolding suggest_eq [OF v c] by (simp add: demo_suggest_body_def)
qed

section \<open>Escalation\<close>

text \<open>
  C1. \<open>search_post\<close> runs the tiers in order. It first runs \<open>_search_post\<close> with
  operator \<open>and\<close>; when that returns a non-empty list, \<open>search_post\<close> returns
  that list and the state the first tier left, so nothing more was sent. Otherwise it
  runs \<open>_search_post\<close> with operator \<open>or\<close>, and a non-empty result is returned
  with the state the second tier left: the suggestion tier is not invoked. This holds
  for every override \<open>u_search_post\<close> of the abstract method. For \<open>TwitterSearch\<close>
  and \<open>InstagramSearch\<close> the log of requests sent to the engine is exactly the
  \<open>and\<close> request in the first case and the \<open>and\<close> request followed by the \<open>or\<close>
  request in the second; neither has a suggest section.
\<close>

theorem search_post_escalation_order:
  "(\<forall>posts w1.
      u_search_post text ''and'' kw w = (Inr posts, w1) \<and> posts \<noteq> [] \<longrightarrow>
      search_post u_search_post self text kw w = (Inr posts, w1))
 \<and> (\<forall>posts w1 w2.
      u_search_post text ''and'' kw w = (Inr [], w1)
    \<and> u_search_post text ''or'' kw w1 = (Inr posts, w2) \<and> posts \<noteq> [] \<longrightarrow>
      search_post u_search_post self text kw w = (Inr posts, w2))
 \<and> (\<forall>d posts.
      connection self (w @ [twitter_request self text ''and'' tkw]) = Inr d
    \<and> serialize (DslResponse d) (tw_include_meta tkw) = Inr posts \<and> posts \<noteq> [] \<longrightarrow>
      twitter_search_post self text tkw w
        = (Inr posts, w @ [twitter_request self text ''and'' tkw]))
 \<and> (\<forall>d1 d2 posts.
      connection self (w @ [twitter_request self text ''and'' tkw]) = Inr d1
    \<and> serialize (DslResponse d1) (tw_include_meta tkw) = Inr []
    \<and> connection self
        (w @ [twitter_request self text ''and'' tkw, twitter_request self text ''or'' tkw])
        = Inr d2
    \<and> serialize (DslResponse d2) (tw_include_meta tkw) = Inr posts \<and> posts \<noteq> [] \<longrightarrow>
      twitter_search_post self text tkw w
        = (Inr posts,
           w @ [twitter_request self text ''and'' tkw, twitter_request self text ''or'' tkw]))
 \<and> (\<forall>d posts.
      connection self (w @ [instagram_request self text ''and'' ikw]) = Inr d
    \<and> serialize (DslResponse d) (ig_include_meta ikw) = Inr posts \<and> posts \<noteq> [] \<longrightarrow>
      instagram_search_post self text ikw w
        = (Inr posts, w @ [instagram_request self text ''and'' ikw]))
 \<and> (\<forall>d1 d2 posts.
      connection self (w @ [instagram_request self text ''and'' ikw]) = Inr d1
    \<and> serialize (DslResponse d1) (ig_include_meta ikw) = Inr []
    \<and> connection self
        (w @ [instagram_request self text ''and'' ikw, instagram_request self text ''or'' ikw])
        = Inr d2
    \<and> serialize (DslResponse d2) (ig_include_meta ikw) = Inr posts \<and> posts \<noteq> [] \<longrightarrow>
      instagram_search_post self text ikw w
        = (Inr posts,
           w @ [instagram_request self text ''and'' ikw,
                instagram_request self text ''or'' ikw]))"
proof (intro conjI allI impI)
  fix posts w1
  assume "u_search_post text ''and'' kw w = (Inr posts, w1) \<and> posts \<noteq> []"
  then show "search_post u_search_post self text kw w = (Inr posts, w1)"
    by (simp add: search_post_and)
next
  fix posts w1 w2
  assume "u_search_post text ''and'' kw w = (Inr [], w1)
    \<and> u_search_post text ''or'' kw w1 = (Inr posts, w2) \<and> posts \<noteq> []"
  then show "search_post u_search_post self text kw w = (Inr posts, w2)"
    by (simp add: search_post_or)
next
  fix d posts
  assume a: "connection self (w @ [twitter_request self text ''and'' tkw]) = Inr d
    \<and> serialize (DslResponse d) (tw_include_meta tkw) = Inr posts \<and> posts \<noteq> []"
  have "twitter_u_search_post self text ''and'' tkw w
      = (Inr posts, w @ [twitter_request self text ''and'' tkw])"
    using a twitter_tier [of self w "text" "''and''" tkw d] by simp
  then show "twitter_search_post self text tkw w
        = (Inr posts, w @ [twitter_request self text ''and'' tkw])"
    unfolding twitter_search_post_def using a
    by (intro search_post_and [where u = "twitter_u_search_post self"]) simp_all
next
  fix d1 d2 posts
  assume a: "connection self (w @ [twitter_request self text ''and'' tkw]) = Inr d1
    \<and> serialize (DslResponse d1) (tw_include_meta tkw) = Inr []
    \<and> connection self
        (w @ [twitter_request self text ''and'' tkw, twitter_request self text ''or'' tkw])
        = Inr d2
    \<and> serialize (DslResponse d2) (tw_include_meta tkw) = Inr posts \<and> posts \<noteq> []"
  have t1: "twitter_u_search_post self text ''and'' tkw w
      = (Inr [], w @ [twitter_request self text ''and'' tkw])"
    using a twitter_tier [of self w "text" "''and''" tkw d1] by simp
  have t2: "twitter_u_search_post self text ''or'' tkw (w @ [twitter_request self text ''and'' tkw])
      = (Inr posts, w @ [twitter_request self text ''and'' tkw, twitter_request self text ''or'' tkw])"
    using a twitter_tier [of self "w @ [twitter_request self text ''and'' tkw]" "text" "''or''" tkw d2]
    by simp
  show "twitter_search_post self text tkw w
        = (Inr posts,
           w @ [twitter_request self text ''and'' tkw, twitter_request self text ''or'' tkw])"
    unfolding twitter_search_post_def using a
    by (intro search_post_or [where u = "twitter_u_search_post self", OF t1 t2]) simp
next
  fix d posts
  assume a: "connection self (w @ [instagram_request self text ''and'' ikw]) = Inr d
    \<and> serialize (DslResponse d) (ig_include_meta ikw) = Inr posts \<and> posts \<noteq> []"
  have "instagram_u_search_post self text ''and'' ikw w
      = (Inr posts, w @ [instagram_request self text ''and'' ikw])"
    using a instagram_tier [of self w "text" "''and''" ikw d] by simp
  then show "instagram_search_post self text ikw w
        = (Inr posts, w @ [instagram_request self text ''and'' ikw])"
    unfolding instagram_search_post_def using a
    by (intro search_post_and [where u = "instagram_u_search_post self"]) simp_all
next
  fix d1 d2 posts
  assume a: "connection self (w @ [instagram_request self text ''and'' ikw]) = Inr d1
    \<and> serialize (DslResponse d1) (ig_include_meta ikw) = Inr []
    \<and> connection self
        (w @ [instagram_request self text ''and'' ikw, instagram_request self text ''or'' ikw])
        = Inr d2
    \<and> serialize (DslResponse d2) (ig_include_meta ikw) = Inr posts \<and> posts \<noteq> []"
  have t1: "instagram_u_search_post self text ''and'' ikw w
      = (Inr [], w @ [instagram_request self text ''and'' ikw])"
    using a instagram_tier [of self w "text" "''and''" ikw d1] by simp
  have t2: "instagram_u_search_post self text ''or'' ikw (w @ [instagram_request self text ''and'' ikw])
      = (Inr posts, w @ [instagram_request self text ''and'' ikw, instagram_request self text ''or'' ikw])"
    using a instagram_tier [of self "w @ [instagram_request self text ''and'' ikw]" "text" "''or''" ikw d2]
    by simp
  show "instagram_search_post self text ikw w
        = (Inr posts,
           w @ [instagram_request self text ''and'' ikw,
                instagram_request self text ''or'' ikw])"
    unfolding instagram_search_post_def using a
    by (intro search_post_or [where u = "instagram_u_search_post self", OF t1 t2]) simp
qed

theorem search_post_escalation_order_witness:
  "((connection demo_self
      ([] @ [twitter_request demo_self (JStr ''happy'') ''and'' demo_twitter_kwargs])
      = Inr (demo_body [demo_hit])
    \<and> serialize (DslResponse (demo_body [demo_hit])) (tw_include_meta demo_twitter_kwargs)
        = Inr [demo_source]
    \<and> [demo_source] \<noteq> [])
   \<and> twitter_search_post demo_self (JStr ''happy'') demo_twitter_kwargs []
     = (Inr [demo_source],
        [] @ [twitter_request demo_self (JStr ''happy'') ''and'' demo_twitter_kwargs]))
 \<and> ((connection demo_self
      ([] @ [twitter_request demo_self (JStr ''happy day'') ''and'' demo_twitter_kwargs])
      = Inr (demo_body [])
    \<and> serialize (DslResponse (demo_body [])) (tw_include_meta demo_twitter_kwargs) = Inr []
    \<and> connection demo_self
        ([] @ [twitter_request demo_self (JStr ''happy day'') ''and'' demo_twitter_kwargs,
               twitter_request demo_self (JStr ''happy day'') ''or'' demo_twitter_kwargs])
        = Inr (demo_body [demo_hit])
    \<and> serialize (DslResponse (demo_body [demo_hit])) (tw_include_meta demo_twitter_kwargs)
        = Inr [demo_source]
    \<and> [demo_source] \<noteq> [])
   \<and> twitter_search_post demo_self (JStr ''happy day'') demo_twitter_kwargs []
     = (Inr [demo_source],
        [] @ [twitter_request demo_self (JStr ''happy day'') ''and'' demo_twitter_kwargs,
              twitter_request demo_self (JStr ''happy day'') ''or'' demo_twitter_kwargs]))"
proof -
  have m: "tw_include_meta demo_twitter_kwargs = False"
    by (simp add: demo_twitter_kwargs_def)
  have c0: "connection demo_self
      ([] @ [twitter_request demo_self (JStr ''happy'') ''and'' demo_twitter_kwargs])
      = Inr (demo_body [demo_hit])"
    using demo_tier [of "[]" "JStr ''happy''" "''and''"] by simp
  have c1: "connection demo_self
      ([] @ [twitter_request demo_self (JStr ''happy day'') ''and'' demo_twitter_kwargs])
      = Inr (demo_body [])"
    using demo_tier [of "[]" "JStr ''happy day''" "''and''"] by simp
  have c2: "connection demo_self
        ([] @ [twitter_request demo_self (JStr ''happy day'') ''and'' demo_twitter_kwargs,
               twitter_request demo_self (JStr ''happy day'') ''or'' demo_twitter_kwargs])
        = Inr (demo_body [demo_hit])"
    using demo_tier [of "[twitter_request demo_self (JStr ''happy day'') ''and'' demo_twitter_kwargs]"
        "JStr ''happy day''" "''or''"]
    by simp
  have s0: "serialize (DslResponse (demo_body [])) (tw_include_meta demo_twitter_kwargs) = Inr []"
    by (rule demo_serialize_empty)
  have s1: "serialize (DslResponse (demo_body [demo_hit])) (tw_include_meta demo_twitter_kwargs)
        = Inr [demo_source]"
    by (simp add: m demo_serialize_hit)
  have ne: "[demo_source] \<noteq> []" by simp
  have g: "connection demo_self
      ([] @ [twitter_request demo_self (JStr ''happy'') ''and'' demo_twitter_kwargs])
      = Inr (demo_body [demo_hit])
    \<and> serialize (DslResponse (demo_body [demo_hit])) (tw_include_meta demo_twitter_kwargs)
        = Inr [demo_source]
    \<and> [demo_source] \<noteq> []"
    by (intro conjI c0 s1 ne)
  have h: "connection demo_self
      ([] @ [twitter_request demo_self (JStr ''happy day'') ''and'' demo_twitter_kwargs])
      = Inr (demo_body [])
    \<and> serialize (DslResponse (demo_body [])) (tw_include_meta demo_twitter_kwargs) = Inr []
    \<and> connection demo_self
        ([] @ [twitter_request demo_self (JStr ''happy day'') ''and'' demo_twitter_kwargs,
               twitter_request demo_self (JStr ''happy day'') ''or'' demo_twitter_kwargs])
        = Inr (demo_body [demo_hit])
    \<and> serialize (DslResponse (demo_body [demo_hit])) (tw_include_meta demo_twitter_kwargs)
        = Inr [demo_source]
    \<and> [demo_source] \<noteq> []"
    by (intro conjI c1 s0 c2 s1 ne)
  note A = search_post_escalation_order
    [where self = demo_self and w = "[]" and ?text = "JStr ''happy''"
       and tkw = demo_twitter_kwargs and u_search_post = "twitter_u_search_post demo_self"
       and kw = demo_twitter_kwargs and ikw = demo_instagram_kwargs,
     THEN conjunct2, THEN conjunct2, THEN conjunct1, rule_format, OF g]
  note T = search_post_escalation_order
    [where self = demo_self and w = "[]" and ?text = "JStr ''happy day''"
       and tkw = demo_twitter_kwargs and u_search_post = "twitter_u_search_post demo_self"
       and kw = demo_twitter_kwargs and ikw = demo_instagram_kwargs,
     THEN conjunct2, THEN conjunct2, THEN conjunct2, THEN conjunct1, rule_format, OF h]
  show ?thesis
    by (rule conjI [OF conjI [OF g A] conjI [OF h T]])
qed

text \<open>
  C2. When the \<open>and\<close> tier and the \<open>or\<close> tier both return the empty list,
  \<open>search_post\<close> calls \<open>suggest\<close> on the original text with field \<open>text\<close>, kind
  \<open>phrase\<close> and name \<open>post_suggest\<close>, which sends one suggest request. With no
  candidate the result is the empty list and nothing more is sent. With at least one
  candidate the result is that of one more \<open>_search_post\<close> call: operator \<open>or\<close>, the
  first candidate as text, the same keyword arguments; its result is returned as it is,
  empty or not. For \<open>TwitterSearch\<close> and \<open>InstagramSearch\<close> the log then holds the
  \<open>and\<close> request, the \<open>or\<close> request, the suggest request and, if there was a
  candidate, the \<open>or\<close> request for the candidate: never a fifth request.
\<close>

theorem search_post_suggestion_tier:
  "(\<forall>w1 w2.
      u_search_post text ''and'' kw w = (Inr [], w1)
    \<and> u_search_post text ''or'' kw w1 = (Inr [], w2) \<longrightarrow>
      snd (suggest self text ''text'' ''phrase'' ''post_suggest'' w2)
        = w2 @ [suggest_request self text ''text'' ''phrase'' ''post_suggest'']
    \<and> (\<forall>w3. suggest self text ''text'' ''phrase'' ''post_suggest'' w2 = (Inr [], w3) \<longrightarrow>
          search_post u_search_post self text kw w = (Inr [], w3))
    \<and> (\<forall>c cs w3. suggest self text ''text'' ''phrase'' ''post_suggest'' w2 = (Inr (c # cs), w3) \<longrightarrow>
          search_post u_search_post self text kw w = u_search_post c ''or'' kw w3))
 \<and> (\<forall>d1 d2 cands w3.
      connection self (w @ [twitter_request self text ''and'' tkw]) = Inr d1
    \<and> serialize (DslResponse d1) (tw_include_meta tkw) = Inr []
    \<and> connection self
        (w @ [twitter_request self text ''and'' tkw, twitter_request self text ''or'' tkw])
        = Inr d2
    \<and> serialize (DslResponse d2) (tw_include_meta tkw) = Inr []
    \<and> suggest self text ''text'' ''phrase'' ''post_suggest''
        (w @ [twitter_request self text ''and'' tkw, twitter_request self text ''or'' tkw])
        = (Inr cands, w3) \<longrightarrow>
      snd (twitter_search_post self text tkw w)
        = w @ [twitter_request self text ''and'' tkw, twitter_request self text ''or'' tkw,
               suggest_request self text ''text'' ''phrase'' ''post_suggest''] @
              (case cands of [] \<Rightarrow> [] | c # cs \<Rightarrow> [twitter_request self c ''or'' tkw])
    \<and> (cands = [] \<longrightarrow> fst (twitter_search_post self text tkw w) = Inr []))
 \<and> (\<forall>d1 d2 cands w3.
      connection self (w @ [instagram_request self text ''and'' ikw]) = Inr d1
    \<and> serialize (DslResponse d1) (ig_include_meta ikw) = Inr []
    \<and> connection self
        (w @ [instagram_request self text ''and'' ikw, instagram_request self text ''or'' ikw])
        = Inr d2
    \<and> serialize (DslResponse d2) (ig_include_meta ikw) = Inr []
    \<and> suggest self text ''text'' ''phrase'' ''post_suggest''
        (w @ [instagram_request self text ''and'' ikw, instagram_request self text ''or'' ikw])
        = (Inr cands, w3) \<longrightarrow>
      snd (instagram_search_post self text ikw w)
        = w @ [instagram_request self text ''and'' ikw, instagram_request self text ''or'' ikw,
               suggest_request self text ''text'' ''phrase'' ''post_suggest''] @
              (case cands of [] \<Rightarrow> [] | c # cs \<Rightarrow> [instagram_request self c ''or'' ikw])
    \<and> (cands = [] \<longrightarrow> fst (instagram_search_post self text ikw w) = Inr []))"
proof (intro conjI allI impI)
  fix w1 w2
  assume "u_search_post text ''and'' kw w = (Inr [], w1)
    \<and> u_search_post text ''or'' kw w1 = (Inr [], w2)"
  show "snd (suggest self text ''text'' ''phrase'' ''post_suggest'' w2)
        = w2 @ [suggest_request self text ''text'' ''phrase'' ''post_suggest'']"
    by (rule suggest_log) simp
next
  fix w1 w2 w3
  assume a: "u_search_post text ''and'' kw w = (Inr [], w1)
    \<and> u_search_post text ''or'' kw w1 = (Inr [], w2)"
    and s: "suggest self text ''text'' ''phrase'' ''post_suggest'' w2 = (Inr [], w3)"
  have "search_post u_search_post self text kw w = suggest_post u_search_post self text kw w2"
    using a by (intro search_post_suggest [where u = u_search_post and ?w1.0 = w1]) simp_all
  then show "search_post u_search_post self text kw w = (Inr [], w3)"
    by (simp add: suggest_post_none [OF s])
next
  fix w1 w2 c cs w3
  assume a: "u_search_post text ''and'' kw w = (Inr [], w1)
    \<and> u_search_post text ''or'' kw w1 = (Inr [], w2)"
    and s: "suggest self text ''text'' ''phrase'' ''post_suggest'' w2 = (Inr (c # cs), w3)"
  have "search_post u_search_post self text kw w = suggest_post u_search_post self text kw w2"
    using a by (intro search_post_suggest [where u = u_search_post and ?w1.0 = w1]) simp_all
  then show "search_post u_search_post self text kw w = u_search_post c ''or'' kw w3"
    by (simp add: suggest_post_some [OF s])
next
  fix d1 d2 cands w3
  assume a: "connection self (w @ [twitter_request self text ''and'' tkw]) = Inr d1
    \<and> serialize (DslResponse d1) (tw_include_meta tkw) = Inr []
    \<and> connection self
        (w @ [twitter_request self text ''and'' tkw, twitter_request self text ''or'' tkw])
        = Inr d2
    \<and> serialize (DslResponse d2) (tw_include_meta tkw) = Inr []
    \<and> suggest self text ''text'' ''phrase'' ''post_suggest''
        (w @ [twitter_request self text ''and'' tkw, twitter_request self text ''or'' tkw])
        = (Inr cands, w3)"
  then have s: "suggest self text ''text'' ''phrase'' ''post_suggest''
        (w @ [twitter_request self text ''and'' tkw, twitter_request self text ''or'' tkw])
        = (Inr cands, w3)" by simp
  have w3: "w3 = w @ [twitter_request self text ''and'' tkw, twitter_request self text ''or'' tkw,
               suggest_request self text ''text'' ''phrase'' ''post_suggest'']"
    using suggest_phrase_log [OF s] by simp
  have e: "twitter_search_post self text tkw w
    = suggest_post (twitter_u_search_post self) self text tkw
        (w @ [twitter_request self text ''and'' tkw, twitter_request self text ''or'' tkw])"
    using a by (intro twitter_both_empty [where ?d1.0 = d1 and ?d2.0 = d2]) simp_all
  show "snd (twitter_search_post self text tkw w)
        = w @ [twitter_request self text ''and'' tkw, twitter_request self text ''or'' tkw,
               suggest_request self text ''text'' ''phrase'' ''post_suggest''] @
              (case cands of [] \<Rightarrow> [] | c # cs \<Rightarrow> [twitter_request self c ''or'' tkw])"
    unfolding e using s w3
    by (cases cands) (simp_all add: suggest_post_def twitter_u_search_post_eq)
  show "fst (twitter_search_post self text tkw w) = Inr []" if "cands = []"
    unfolding e using s that by (simp add: suggest_post_def)
next
  fix d1 d2 cands w3
  assume a: "connection self (w @ [instagram_request self text ''and'' ikw]) = Inr d1
    \<and> serialize (DslResponse d1) (ig_include_meta ikw) = Inr []
    \<and> connection self
        (w @ [instagram_request self text ''and'' ikw, instagram_request self text ''or'' ikw])
        = Inr d2
    \<and> serialize (DslResponse d2) (ig_include_meta ikw) = Inr []
    \<and> suggest self text ''text'' ''phrase'' ''post_suggest''
        (w @ [instagram_request self text ''and'' ikw, instagram_request self text ''or'' ikw])
        = (Inr cands, w3)"
  then have s: "suggest self text ''text'' ''phrase'' ''post_suggest''
        (w @ [instagram_request self text ''and'' ikw, instagram_request self text ''or'' ikw])
        = (Inr cands, w3)" by simp
  have w3: "w3 = w @ [instagram_request self text ''and'' ikw, instagram_request self text ''or'' ikw,
               suggest_request self text ''text'' ''phrase'' ''post_suggest'']"
    using suggest_phrase_log [OF s] by simp
  have e: "instagram_search_post self text ikw w
    = suggest_post (instagram_u_search_post self) self text ikw
        (w @ [instagram_request self text ''and'' ikw, instagram_request self text ''or'' ikw])"
    using a by (intro instagram_both_empty [where ?d1.0 = d1 and ?d2.0 = d2]) simp_all
  show "snd (instagram_search_post self text ikw w)
        = w @ [instagram_request self text ''and'' ikw, instagram_request self text ''or'' ikw,
               suggest_request self text ''text'' ''phrase'' ''post_suggest''] @
              (case cands of [] \<Rightarrow> [] | c # cs \<Rightarrow> [instagram_request self c ''or'' ikw])"
    unfolding e using s w3
    by (cases cands) (simp_all add: suggest_post_def instagram_u_search_post_eq)
  show "fst (instagram_search_post self text ikw w) = Inr []" if "cands = []"
    unfolding e using s that by (simp add: suggest_post_def)
qed

theorem search_post_suggestion_tier_witness:
  "(connection demo_self
      ([] @ [twitter_request demo_self (JStr ''hapy'') ''and'' demo_twitter_kwargs])
      = Inr (demo_body [])
    \<and> serialize (DslResponse (demo_body [])) (tw_include_meta demo_twitter_kwargs) = Inr []
    \<and> connection demo_self
        ([] @ [twitter_request demo_self (JStr ''hapy'') ''and'' demo_twitter_kwargs,
               twitter_request demo_self (JStr ''hapy'') ''or'' demo_twitter_kwargs])
        = Inr (demo_body [])
    \<and> serialize (DslResponse (demo_body [])) (tw_include_meta demo_twitter_kwargs) = Inr []
    \<and> suggest demo_self (JStr ''hapy'') ''text'' ''phrase'' ''post_suggest''
        ([] @ [twitter_request demo_self (JStr ''hapy'') ''and'' demo_twitter_kwargs,
               twitter_request demo_self (JStr ''hapy'') ''or'' demo_twitter_kwargs])
        = (Inr [JStr ''happy''],
           ([] @ [twitter_request demo_self (JStr ''hapy'') ''and'' demo_twitter_kwargs,
                  twitter_request demo_self (JStr ''hapy'') ''or'' demo_twitter_kwargs]) @
           [suggest_request demo_self (JStr ''hapy'') ''text'' ''phrase'' ''post_suggest'']))
 \<and> snd (twitter_search_post demo_self (JStr ''hapy'') demo_twitter_kwargs [])
     = [] @ [twitter_request demo_self (JStr ''hapy'') ''and'' demo_twitter_kwargs,
             twitter_request demo_self (JStr ''hapy'') ''or'' demo_twitter_kwargs,
             suggest_request demo_self (JStr ''hapy'') ''text'' ''phrase'' ''post_suggest''] @
            [twitter_request demo_self (JStr ''happy'') ''or'' demo_twitter_kwargs]"
proof -
  have c1: "connection demo_self
      ([] @ [twitter_request demo_self (JStr ''hapy'') ''and'' demo_twitter_kwargs])
      = Inr (demo_body [])"
    using demo_tier [of "[]" "JStr ''hapy''" "''and''"] by simp
  have c2: "connection demo_self
        ([] @ [twitter_request demo_self (JStr ''hapy'') ''and'' demo_twitter_kwargs,
               twitter_request demo_self (JStr ''hapy'') ''or'' demo_twitter_kwargs])
        = Inr (demo_body [])"
    using demo_tier [of "[twitter_request demo_self (JStr ''hapy'') ''and'' demo_twitter_kwargs]"
        "JStr ''hapy''" "''or''"]
    by simp
  have h: "connection demo_self
      ([] @ [twitter_request demo_self (JStr ''hapy'') ''and'' demo_twitter_kwargs])
      = Inr (demo_body [])
    \<and> serialize (DslResponse (demo_body [])) (tw_include_meta demo_twitter_kwargs) = Inr []
    \<and> connection demo_self
        ([] @ [twitter_request demo_self (JStr ''hapy'') ''and'' demo_twitter_kwargs,
               twitter_request demo_self (JStr ''hapy'') ''or'' demo_twitter_kwargs])
        = Inr (demo_body [])
    \<and> serialize (DslResponse (demo_body [])) (tw_include_meta demo_twitter_kwargs) = Inr []
    \<and> suggest demo_self (JStr ''hapy'') ''text'' ''phrase'' ''post_suggest''
        ([] @ [twitter_request demo_self (JStr ''hapy'') ''and'' demo_twitter_kwargs,
               twitter_request demo_self (JStr ''hapy'') ''or'' demo_twitter_kwargs])
        = (Inr [JStr ''happy''],
           ([] @ [twitter_request demo_self (JStr ''hapy'') ''and'' demo_twitter_kwargs,
                  twitter_request demo_self (JStr ''hapy'') ''or'' demo_twitter_kwargs]) @
           [suggest_request demo_self (JStr ''hapy'') ''text'' ''phrase'' ''post_suggest''])"
    apply (intro conjI)
        apply (rule c1)
       apply (rule demo_serialize_empty)
      apply (rule c2)
     apply (rule demo_serialize_empty)
    apply (rule demo_suggest)
    done
  note T = search_post_suggestion_tier
    [where self = demo_self and w = "[]" and ?text = "JStr ''hapy''"
       and tkw = demo_twitter_kwargs and u_search_post = "twitter_u_search_post demo_self"
       and kw = demo_twitter_kwargs and ikw = demo_instagram_kwargs,
     THEN conjunct2, THEN conjunct1, rule_format, OF h, THEN conjunct1]
  show ?thesis
    apply (rule conjI)
     apply (rule h)
    using T apply simp
    done
qed

section \<open>Filter kinds\<close>

text \<open>
  C3. Each of the three filter functions (Twitter \<open>username_owner\<close>, Twitter
  \<open>username_timeline\<close>, Instagram \<open>username\<close>) appends a \<open>term\<close> clause on its field when
  the value is a single string and a \<open>terms\<close> clause when the value is a list, also a
  one-element list holding the same string; the two clauses never have the same kind.
\<close>

theorem filter_term_vs_terms:
  "filter_username_owner s (FStr u) =
     s\<lparr>filters := filters s @ [FieldQ ''term'' ''username_owner'' (FStr u)]\<rparr>
   \<and> filter_username_owner s (FList us) =
     s\<lparr>filters := filters s @ [FieldQ ''terms'' ''username_owner'' (FList us)]\<rparr>
   \<and> filter_username_timeline s (FStr u) =
     s\<lparr>filters := filters s @ [FieldQ ''term'' ''username_timeline'' (FStr u)]\<rparr>
   \<and> filter_username_timeline s (FList us) =
     s\<lparr>filters := filters s @ [FieldQ ''terms'' ''username_timeline'' (FList us)]\<rparr>
   \<and> filter_username s (FStr u) =
     s\<lparr>filters := filters s @ [FieldQ ''term'' ''username'' (FStr u)]\<rparr>
   \<and> filter_username s (FList us) =
     s\<lparr>filters := filters s @ [FieldQ ''terms'' ''username'' (FList us)]\<rparr>
   \<and> clause_kind (last (filters (filter_username_owner s (FStr u))))
       \<noteq> clause_kind (last (filters (filter_username_owner s (FList [u]))))
   \<and> clause_kind (last (filters (filter_username_timeline s (FStr u))))
       \<noteq> clause_kind (last (filters (filter_username_timeline s (FList [u]))))
   \<and> clause_kind (last (filters (filter_username s (FStr u))))
       \<noteq> clause_kind (last (filters (filter_username s (FList [u]))))"
  by (simp add: filter_username_owner_def filter_username_timeline_def filter_username_def
      filter_q_def)

section \<open>Normalizing results\<close>

text \<open>
  C4. For a response whose hits are well-formed, \<open>serialize\<close> with
  \<open>include_meta = False\<close> returns for each hit exactly its \<open>_source\<close> payload, a
  record without the envelope fields \<open>_id\<close>, \<open>_score\<close>, \<open>_index\<close>; with
  \<open>include_meta = True\<close> it returns the hit itself, a record that has the three
  envelope fields and the document body under \<open>_source\<close>.
\<close>

theorem serialize_meta_fields:
  assumes "response_hits r = Inr (JArr hs)" and "list_all wf_hit hs"
  shows "\<exists>out_body out_meta.
           serialize r False = Inr out_body \<and> serialize r True = Inr out_meta
         \<and> length out_body = length hs \<and> length out_meta = length hs
         \<and> (\<forall>i<length hs.
               getitem (hs ! i) ''_source'' = Inr (out_body ! i)
             \<and> list_all (\<lambda>k. \<not> has_key (out_body ! i) k) envelope_fields
             \<and> out_meta ! i = hs ! i
             \<and> list_all (has_key (out_meta ! i)) envelope_fields
             \<and> getitem (out_meta ! i) ''_source'' = Inr (out_body ! i))"
proof -
  have src: "list_all (\<lambda>h. has_key h ''_source'') hs"
    using assms(2) by (simp add: list_all_iff wf_hit_def)
  have body: "serialize r False = Inr (map the_source hs)"
    using serialize_records [OF assms(1) src, of False] by simp
  have meta: "serialize r True = Inr hs"
    using serialize_records [OF assms(1) src, of True] by simp
  have each: "getitem (hs ! i) ''_source'' = Inr (the_source (hs ! i))
       \<and> list_all (\<lambda>k. \<not> has_key (the_source (hs ! i)) k) envelope_fields
       \<and> list_all (has_key (hs ! i)) envelope_fields" if "i < length hs" for i
  proof -
    have "wf_hit (hs ! i)" using assms(2) that by (simp add: list_all_length)
    then show ?thesis by (simp add: wf_hit_def has_source_getitem)
  qed
  have every: "\<forall>i<length hs.
               getitem (hs ! i) ''_source'' = Inr (map the_source hs ! i)
             \<and> list_all (\<lambda>k. \<not> has_key (map the_source hs ! i) k) envelope_fields
             \<and> hs ! i = hs ! i
             \<and> list_all (has_key (hs ! i)) envelope_fields
             \<and> getitem (hs ! i) ''_source'' = Inr (map the_source hs ! i)"
  proof (intro allI impI)
    fix i assume i: "i < length hs"
    have m: "map the_source hs ! i = the_source (hs ! i)"
      using i by simp
    show "getitem (hs ! i) ''_source'' = Inr (map the_source hs ! i)
             \<and> list_all (\<lambda>k. \<not> has_key (map the_source hs ! i) k) envelope_fields
             \<and> hs ! i = hs ! i
             \<and> list_all (has_key (hs ! i)) envelope_fields
             \<and> getitem (hs ! i) ''_source'' = Inr (map the_source hs ! i)"
      unfolding m using each [OF i] by blast
  qed
  show ?thesis
    apply (rule exI [of _ "map the_source hs"])
    apply (rule exI [of _ hs])
    apply (intro conjI)
        apply (rule body)
       apply (rule meta)
      apply (rule length_map)
     apply (rule refl)
    apply (rule every)
    done
qed

theorem serialize_meta_fields_witness:
  "response_hits (DslResponse (demo_body [demo_hit])) = Inr (JArr [demo_hit])
 \<and> list_all wf_hit [demo_hit]
 \<and> (\<exists>out_body out_meta.
           serialize (DslResponse (demo_body [demo_hit])) False = Inr out_body
         \<and> serialize (DslResponse (demo_body [demo_hit])) True = Inr out_meta
         \<and> length out_body = length [demo_hit] \<and> length out_meta = length [demo_hit]
         \<and> (\<forall>i<length [demo_hit].
               getitem ([demo_hit] ! i) ''_source'' = Inr (out_body ! i)
             \<and> list_all (\<lambda>k. \<not> has_key (out_body ! i) k) envelope_fields
             \<and> out_meta ! i = [demo_hit] ! i
             \<and> list_all (has_key (out_meta ! i)) envelope_fields
             \<and> getitem (out_meta ! i) ''_source'' = Inr (out_body ! i)))"
proof -
  have h1: "response_hits (DslResponse (demo_body [demo_hit])) = Inr (JArr [demo_hit])"
    by (rule demo_hits)
  have h2: "list_all wf_hit [demo_hit]"
    by (simp add: demo_hit_wf)
  show ?thesis
    apply (intro conjI)
      apply (rule h1)
     apply (rule h2)
    apply (rule serialize_meta_fields [OF h1 h2])
    done
qed

text \<open>
  C5. For every list of hits (each a dict) and every \<open>include_meta\<close>, \<open>serialize\<close>
  gives the same output for the DSL response wrapping a body and for the body as a plain
  dict: the two conversors agree.
\<close>

theorem serialize_shape_invariant:
  assumes "response_hits (RawDict d) = Inr (JArr hs)" and "list_all is_dict hs"
  shows "serialize (DslResponse d) include_meta = serialize (RawDict d) include_meta"
proof -
  have h: "response_hits (DslResponse d) = Inr (JArr hs)"
    using assms(1) by (simp add: response_hits_def)
  have "comprehension (\<lambda>hit. hit_dsl_conversor hit include_meta) hs
      = comprehension (\<lambda>hit. hit_conversor hit include_meta) hs"
    using assms(2) by (intro comprehension_cong) (simp add: list_all_iff dsl_raw_conv)
  then show ?thesis
    by (simp add: serialize_hits [OF h] serialize_hits [OF assms(1)])
qed

theorem serialize_shape_invariant_witness:
  "response_hits (RawDict (demo_body [demo_hit])) = Inr (JArr [demo_hit])
 \<and> list_all is_dict [demo_hit]
 \<and> serialize (DslResponse (demo_body [demo_hit])) True
     = serialize (RawDict (demo_body [demo_hit])) True
 \<and> serialize (DslResponse (demo_body [demo_hit])) False
     = serialize (RawDict (demo_body [demo_hit])) False"
proof -
  have h1: "response_hits (RawDict (demo_body [demo_hit])) = Inr (JArr [demo_hit])"
    by (rule demo_hits)
  have h2: "list_all is_dict [demo_hit]"
    by (simp add: demo_hit_def)
  show ?thesis
    apply (intro conjI)
       apply (rule h1)
      apply (rule h2)
     apply (rule serialize_shape_invariant [OF h1 h2])
    apply (rule serialize_shape_invariant [OF h1 h2])
    done
qed

text \<open>
  C6. \<open>serialize\<close> returns one record per hit, in the order of the hit list: the
  output is the hit list mapped through the conversion, so nothing is dropped, merged or
  reordered. A response with an empty hit list gives the empty list, not an error.
\<close>

theorem serialize_preserves_order:
  assumes "response_hits r = Inr (JArr hs)"
    and "list_all (\<lambda>h. has_key h ''_source'') hs"
  shows "serialize r include_meta
           = Inr (map (\<lambda>h. if include_meta then h else the_source h) hs)
       \<and> (hs = [] \<longrightarrow> serialize r include_meta = Inr [])"
  using serialize_records [OF assms] by simp

theorem serialize_preserves_order_witness:
  "response_hits (RawDict (demo_body [demo_hit, JObj [(''_source'', JNum 7)]]))
     = Inr (JArr [demo_hit, JObj [(''_source'', JNum 7)]])
 \<and> list_all (\<lambda>h. has_key h ''_source'') [demo_hit, JObj [(''_source'', JNum 7)]]
 \<and> serialize (RawDict (demo_body [demo_hit, JObj [(''_source'', JNum 7)]])) False
     = Inr [demo_source, JNum 7]"
proof -
  have h1: "response_hits (RawDict (demo_body [demo_hit, JObj [(''_source'', JNum 7)]]))
     = Inr (JArr [demo_hit, JObj [(''_source'', JNum 7)]])"
    by (rule demo_hits)
  have h2: "list_all (\<lambda>h. has_key h ''_source'') [demo_hit, JObj [(''_source'', JNum 7)]]"
    by (simp add: demo_hit_def)
  have v: "map (\<lambda>h. if False then h else the_source h) [demo_hit, JObj [(''_source'', JNum 7)]]
      = [demo_source, JNum 7]"
    by (simp add: demo_hit_def)
  show ?thesis
    using h1 h2 serialize_preserves_order [OF h1 h2, of False] unfolding v by simp
qed

section \<open>Suggestions\<close>

text \<open>
  C7. For a \<open>suggestion_type\<close> other than \<open>phrase\<close> and \<open>term\<close>, \<open>suggest\<close>
  raises \<open>ValueError\<close> and the log is unchanged: no request was sent. For
  \<open>phrase\<close> and \<open>term\<close> it does not raise \<open>ValueError\<close>, and it sends exactly
  the suggest request.
\<close>

theorem valid_suggestion_types:
  "(suggestion_type \<noteq> ''phrase'' \<and> suggestion_type \<noteq> ''term'' \<longrightarrow>
      suggest self text field_name suggestion_type suggestion_name w = (Inl ValueError, w))
 \<and> (suggestion_type = ''phrase'' \<or> suggestion_type = ''term'' \<longrightarrow>
      fst (suggest self text field_name suggestion_type suggestion_name w) \<noteq> Inl ValueError
    \<and> snd (suggest self text field_name suggestion_type suggestion_name w)
        = w @ [suggest_request self text field_name suggestion_type suggestion_name])"
proof (intro conjI impI)
  assume "suggestion_type \<noteq> ''phrase'' \<and> suggestion_type \<noteq> ''term''"
  then show "suggest self text field_name suggestion_type suggestion_name w = (Inl ValueError, w)"
    by (simp add: suggest_invalid)
next
  assume v: "suggestion_type = ''phrase'' \<or> suggestion_type = ''term''"
  show "fst (suggest self text field_name suggestion_type suggestion_name w) \<noteq> Inl ValueError"
    by (rule suggest_valid_no_ValueError [OF v])
next
  assume v: "suggestion_type = ''phrase'' \<or> suggestion_type = ''term''"
  show "snd (suggest self text field_name suggestion_type suggestion_name w)
        = w @ [suggest_request self text field_name suggestion_type suggestion_name]"
    by (rule suggest_log [OF v])
qed

theorem valid_suggestion_types_witness:
  "(''fuzzy'' \<noteq> ''phrase'' \<and> ''fuzzy'' \<noteq> ''term'')
 \<and> suggest demo_self (JStr ''hapy'') ''text'' ''fuzzy'' ''s1'' [] = (Inl ValueError, [])
 \<and> (''term'' = ''phrase'' \<or> ''term'' = ''term'')
 \<and> fst (suggest demo_self (JStr ''hapy'') ''text'' ''term'' ''s1'' []) \<noteq> Inl ValueError
 \<and> snd (suggest demo_self (JStr ''hapy'') ''text'' ''term'' ''s1'' [])
     = [] @ [suggest_request demo_self (JStr ''hapy'') ''text'' ''term'' ''s1'']"
proof -
  have h1: "''fuzzy'' \<noteq> ''phrase'' \<and> ''fuzzy'' \<noteq> ''term''" by simp
  have h2: "''term'' = ''phrase'' \<or> ''term'' = ''term''" by simp
  note A = valid_suggestion_types
    [where suggestion_type = "''fuzzy''" and self = demo_self and ?text = "JStr ''hapy''"
       and field_name = "''text''" and suggestion_name = "''s1''" and w = "[]",
     THEN conjunct1, rule_format, OF h1]
  note B = valid_suggestion_types
    [where suggestion_type = "''term''" and self = demo_self and ?text = "JStr ''hapy''"
       and field_name = "''text''" and suggestion_name = "''s1''" and w = "[]",
     THEN conjunct2, rule_format, OF h2]
  show ?thesis
    apply (intro conjI)
        apply (rule h1 [THEN conjunct1])
       apply (rule h1 [THEN conjunct2])
      apply (rule A)
     apply (rule h2)
     apply (rule B [THEN conjunct1])
    apply (rule B [THEN conjunct2])
    done
qed

text \<open>
  C8. When the response of the engine has no \<open>suggest\<close> section, \<open>suggest\<close>
  raises \<open>NotImplementedError\<close> instead of returning the empty list. When the section
  is there, \<open>suggest\<close> reads the first entry under the name of the request, whatever
  the entries after it, and returns the texts of its options in their order.
\<close>

theorem suggest_missing_section:
  assumes "suggestion_type = ''phrase'' \<or> suggestion_type = ''term''"
    and "connection self (w @ [suggest_request self text field_name suggestion_type suggestion_name]) = Inr d"
  shows "(map_of d ''suggest'' = None \<longrightarrow>
            suggest self text field_name suggestion_type suggestion_name w =
              (Inl NotImplementedError,
               w @ [suggest_request self text field_name suggestion_type suggestion_name]))
       \<and> (\<forall>suggestions first rest opts.
            map_of d ''suggest'' = Some suggestions
          \<and> getitem suggestions suggestion_name = Inr (JArr (first # rest))
          \<and> getattr first ''options'' = Inr (JArr opts)
          \<and> list_all (\<lambda>x. has_key x ''text'') opts \<longrightarrow>
            suggest self text field_name suggestion_type suggestion_name w =
              (Inr (map (\<lambda>x. value_at x ''text'') opts),
               w @ [suggest_request self text field_name suggestion_type suggestion_name]))"
proof (intro conjI allI impI)
  assume "map_of d ''suggest'' = None"
  then show "suggest self text field_name suggestion_type suggestion_name w =
              (Inl NotImplementedError,
               w @ [suggest_request self text field_name suggestion_type suggestion_name])"
    by (simp add: suggest_eq [OF assms])
next
  fix suggestions first rest opts
  assume "map_of d ''suggest'' = Some suggestions
          \<and> getitem suggestions suggestion_name = Inr (JArr (first # rest))
          \<and> getattr first ''options'' = Inr (JArr opts)
          \<and> list_all (\<lambda>x. has_key x ''text'') opts"
  then show "suggest self text field_name suggestion_type suggestion_name w =
              (Inr (map (\<lambda>x. value_at x ''text'') opts),
               w @ [suggest_request self text field_name suggestion_type suggestion_name])"
    using suggest_present [OF assms] by blast
qed

theorem suggest_missing_section_witness:
  "((''term'' = ''phrase'' \<or> ''term'' = ''term'')
   \<and> connection empty_index_self
        ([] @ [suggest_request empty_index_self (JStr ''insta'') ''username'' ''term'' ''s1''])
        = Inr (demo_body [])
   \<and> map_of (demo_body []) ''suggest'' = None
   \<and> suggest empty_index_self (JStr ''insta'') ''username'' ''term'' ''s1'' []
       = (Inl NotImplementedError,
          [] @ [suggest_request empty_index_self (JStr ''insta'') ''username'' ''term'' ''s1'']))
 \<and> ((''phrase'' = ''phrase'' \<or> ''phrase'' = ''term'')
   \<and> connection demo_self
        ([] @ [suggest_request demo_self (JStr ''hapy'') ''text'' ''phrase'' ''post_suggest''])
        = Inr demo_suggest_body
   \<and> (map_of demo_suggest_body ''suggest''
        = Some (JObj [(''post_suggest'',
              JArr [JObj [(''text'', JStr ''hapy''),
                          (''options'', JArr [JObj [(''text'', JStr ''happy'')]])]])])
      \<and> getitem (JObj [(''post_suggest'',
              JArr [JObj [(''text'', JStr ''hapy''),
                          (''options'', JArr [JObj [(''text'', JStr ''happy'')]])]])])
            ''post_suggest''
          = Inr (JArr [JObj [(''text'', JStr ''hapy''),
                          (''options'', JArr [JObj [(''text'', JStr ''happy'')]])]])
      \<and> getattr (JObj [(''text'', JStr ''hapy''),
                          (''options'', JArr [JObj [(''text'', JStr ''happy'')]])]) ''options''
          = Inr (JArr [JObj [(''text'', JStr ''happy'')]])
      \<and> list_all (\<lambda>x. has_key x ''text'') [JObj [(''text'', JStr ''happy'')]])
   \<and> suggest demo_self (JStr ''hapy'') ''text'' ''phrase'' ''post_suggest'' []
       = (Inr (map (\<lambda>x. value_at x ''text'') [JObj [(''text'', JStr ''happy'')]]),
          [] @ [suggest_request demo_self (JStr ''hapy'') ''text'' ''phrase'' ''post_suggest'']))"
proof -
  have h1: "''term'' = ''phrase'' \<or> ''term'' = ''term''" by simp
  have h2: "connection empty_index_self
      ([] @ [suggest_request empty_index_self (JStr ''insta'') ''username'' ''term'' ''s1''])
      = Inr (demo_body [])"
    by (simp add: empty_index_self_def)
  have h3: "map_of (demo_body []) ''suggest'' = None"
    by (simp add: demo_body_def)
  have g1: "''phrase'' = ''phrase'' \<or> ''phrase'' = ''term''" by simp
  have g2: "connection demo_self
        ([] @ [suggest_request demo_self (JStr ''hapy'') ''text'' ''phrase'' ''post_suggest''])
        = Inr demo_suggest_body"
    by (simp add: demo_self_def demo_connection_def suggest_request_def)
  have g3: "map_of demo_suggest_body ''suggest''
        = Some (JObj [(''post_suggest'',
              JArr [JObj [(''text'', JStr ''hapy''),
                          (''options'', JArr [JObj [(''text'', JStr ''happy'')]])]])])
      \<and> getitem (JObj [(''post_suggest'',
              JArr [JObj [(''text'', JStr ''hapy''),
                          (''options'', JArr [JObj [(''text'', JStr ''happy'')]])]])])
            ''post_suggest''
          = Inr (JArr [JObj [(''text'', JStr ''hapy''),
                          (''options'', JArr [JObj [(''text'', JStr ''happy'')]])]])
      \<and> getattr (JObj [(''text'', JStr ''hapy''),
                          (''options'', JArr [JObj [(''text'', JStr ''happy'')]])]) ''options''
          = Inr (JArr [JObj [(''text'', JStr ''happy'')]])
      \<and> list_all (\<lambda>x. has_key x ''text'') [JObj [(''text'', JStr ''happy'')]]"
    by (simp add: demo_suggest_body_def)
  show ?thesis
    apply (intro conjI)
           apply (rule h1)
          apply (rule h2)
         apply (rule h3)
        apply (rule suggest_missing_section [OF h1 h2, THEN conjunct1, rule_format, OF h3])
       apply (rule g1)
      apply (rule g2)
         apply (rule g3 [THEN conjunct1])
        apply (rule g3 [THEN conjunct2, THEN conjunct1])
       apply (rule g3 [THEN conjunct2, THEN conjunct2, THEN conjunct1])
      apply (rule g3 [THEN conjunct2, THEN conjunct2, THEN conjunct2])
    apply (rule suggest_missing_section [OF g1 g2, THEN conjunct2, rule_format, OF g3])
    done
qed

section \<open>Building the query\<close>

text \<open>
  C9, as stated, says that the projection is applied whenever it is provided. The code
  tests \<open>if includes:\<close>, so an include list that is provided but empty is not
  applied: the \<open>_source\<close> projection of the query stays unset.
\<close>

theorem empty_includes_counterexample:
  "source_includes
     (construct_multi_field_search
        \<lparr>s_index = ''tw'', source_includes = None, source_excludes = None, queries = [],
         filters = [], params_size = None, suggest_section = []\<rparr>
        (JStr ''happy'') ''and'' [''text''] (Some 5) (Some []) None)
   \<noteq> Some []"
  by (simp add: construct_multi_field_search_def)

text \<open>
  C9, amended. \<open>construct_multi_field_search\<close> appends a \<open>multi_match\<close> clause
  with exactly the given text, operator and field list, and sets the \<open>size\<close>
  parameter to the requested size (5 when none is given), so the cap sent to the engine
  is never above the requested size. An include or exclude list that is provided and not
  empty is set as the projection; for \<open>None\<close> and for the empty list the projection
  of the base query is left as it was. The filters of the base query are kept.
\<close>

theorem construct_multi_field_search_query:
  "queries (construct_multi_field_search s0 text operator fs size_arg includes excludes)
     = queries s0 @ [MultiMatch text operator fs]
 \<and> params_size (construct_multi_field_search s0 text operator fs size_arg includes excludes)
     = Some (case size_arg of None \<Rightarrow> 5 | Some n \<Rightarrow> n)
 \<and> (\<forall>n. size_arg = Some n \<longrightarrow>
       (\<exists>cap. params_size (construct_multi_field_search s0 text operator fs size_arg includes excludes)
          = Some cap \<and> cap \<le> n))
 \<and> (\<forall>xs. includes = Some xs \<and> xs \<noteq> [] \<longrightarrow>
       source_includes (construct_multi_field_search s0 text operator fs size_arg includes excludes)
         = Some xs)
 \<and> (\<forall>xs. excludes = Some xs \<and> xs \<noteq> [] \<longrightarrow>
       source_excludes (construct_multi_field_search s0 text operator fs size_arg includes excludes)
         = Some xs)
 \<and> (includes = None \<or> includes = Some [] \<longrightarrow>
       source_includes (construct_multi_field_search s0 text operator fs size_arg includes excludes)
         = source_includes s0)
 \<and> (excludes = None \<or> excludes = Some [] \<longrightarrow>
       source_excludes (construct_multi_field_search s0 text operator fs size_arg includes excludes)
         = source_excludes s0)
 \<and> filters (construct_multi_field_search s0 text operator fs size_arg includes excludes)
     = filters s0"
  by (auto simp add: construct_multi_field_search_def Let_def)

theorem construct_multi_field_search_query_witness:
  "(Some [''text''] = Some [''text''] \<and> [''text''] \<noteq> [])
 \<and> source_includes
      (construct_multi_field_search (search_base demo_self) (JStr ''happy'') ''and'' [''text'']
         None (Some [''text'']) (Some []))
     = Some [''text'']
 \<and> (Some [] = None \<or> Some [] = Some ([] :: string list))
 \<and> source_excludes
      (construct_multi_field_search (search_base demo_self) (JStr ''happy'') ''and'' [''text'']
         None (Some [''text'']) (Some []))
     = source_excludes (search_base demo_self)
 \<and> params_size
      (construct_multi_field_search (search_base demo_self) (JStr ''happy'') ''and'' [''text'']
         None (Some [''text'']) (Some []))
     = Some 5"
proof -
  have h1: "Some [''text''] = Some [''text''] \<and> [''text''] \<noteq> []" by simp
  have h2: "Some [] = None \<or> Some [] = Some ([] :: string list)" by simp
  note T = construct_multi_field_search_query
    [where ?s0.0 = "search_base demo_self" and ?text = "JStr ''happy''" and operator = "''and''"
       and fs = "[''text'']" and size_arg = None and ?includes = "Some [''text'']"
       and excludes = "Some []"]
  have p: "params_size
      (construct_multi_field_search (search_base demo_self) (JStr ''happy'') ''and'' [''text'']
         None (Some [''text'']) (Some []))
     = Some 5"
    using T [THEN conjunct2, THEN conjunct1] by simp
  show ?thesis
    apply (intro conjI)
          apply (rule h1 [THEN conjunct1])
         apply (rule h1 [THEN conjunct2])
        apply (rule T [THEN conjunct2, THEN conjunct2, THEN conjunct2, THEN conjunct1,
          rule_format, OF h1])
       apply (rule h2)
      apply (rule T [THEN conjunct2, THEN conjunct2, THEN conjunct2, THEN conjunct2,
          THEN conjunct2, THEN conjunct2, THEN conjunct1, rule_format, OF h2])
    apply (rule p)
    done
qed

section \<open>Empty filter values\<close>

text \<open>
  C10. \<open>InstagramSearch._search_post\<close> leaves the \<open>username\<close> filter out when the
  value is \<open>None\<close>, the empty string or the empty list: the request has no filter and
  the call equals the call without \<open>username\<close>. Every other value is filtered on.
  \<open>TwitterSearch._search_post\<close> filters on every \<open>username_owner\<close> and
  \<open>username_timeline\<close> that is not \<open>None\<close>: for the empty string the request
  carries a \<open>term\<close> filter on the empty string, where Instagram sends none.
\<close>

theorem empty_username_instagram_vs_twitter:
  "(ig_username kw = None \<or> ig_username kw = Some (FStr []) \<or> ig_username kw = Some (FList []) \<longrightarrow>
      snd (instagram_u_search_post self text operator kw w)
        = w @ [instagram_request self text operator kw]
    \<and> filters (instagram_request self text operator kw) = []
    \<and> instagram_u_search_post self text operator kw w
        = instagram_u_search_post self text operator (kw\<lparr>ig_username := None\<rparr>) w)
 \<and> (\<forall>v. ig_username kw = Some v \<and> v \<noteq> FStr [] \<and> v \<noteq> FList [] \<longrightarrow>
      snd (instagram_u_search_post self text operator kw w)
        = w @ [instagram_request self text operator kw]
    \<and> filters (instagram_request self text operator kw) = [FieldQ (filter_kind v) ''username'' v])
 \<and> snd (twitter_u_search_post self text operator tkw w)
      = w @ [twitter_request self text operator tkw]
 \<and> (\<forall>v. tw_username_owner tkw = Some v \<longrightarrow>
      FieldQ (filter_kind v) ''username_owner'' v
        \<in> set (filters (twitter_request self text operator tkw)))
 \<and> (\<forall>v. tw_username_timeline tkw = Some v \<longrightarrow>
      FieldQ (filter_kind v) ''username_timeline'' v
        \<in> set (filters (twitter_request self text operator tkw)))
 \<and> (tw_username_owner tkw = Some (FStr []) \<and> tw_username_timeline tkw = None
      \<and> ig_username kw = Some (FStr []) \<longrightarrow>
      filters (twitter_request self text operator tkw) = [FieldQ ''term'' ''username_owner'' (FStr [])]
    \<and> filters (instagram_request self text operator kw) = [])"
proof -
  have ig: "snd (instagram_u_search_post self text operator k w)
        = w @ [instagram_request self text operator k]" for k
    by (simp add: instagram_u_search_post_eq)
  have tw: "snd (twitter_u_search_post self text operator tkw w)
      = w @ [twitter_request self text operator tkw]"
    by (simp add: twitter_u_search_post_eq)
  have same: "instagram_request self text operator kw
      = instagram_request self text operator (kw\<lparr>ig_username := None\<rparr>)"
    if "ig_username kw = None \<or> ig_username kw = Some (FStr []) \<or> ig_username kw = Some (FList [])"
    using that by (auto simp add: instagram_request_def)
  have same_call: "instagram_u_search_post self text operator kw w
        = instagram_u_search_post self text operator (kw\<lparr>ig_username := None\<rparr>) w"
    if "ig_username kw = None \<or> ig_username kw = Some (FStr []) \<or> ig_username kw = Some (FList [])"
    by (simp add: instagram_u_search_post_eq same [OF that, symmetric] cong: sum.case_cong)
  have nofilter: "filters (instagram_request self text operator kw) = []"
    if "ig_username kw = None \<or> ig_username kw = Some (FStr []) \<or> ig_username kw = Some (FList [])"
    using that by (auto simp add: instagram_request_def)
  have withfilter: "filters (instagram_request self text operator kw) = [FieldQ (filter_kind v) ''username'' v]"
    if "ig_username kw = Some v \<and> v \<noteq> FStr [] \<and> v \<noteq> FList []" for v
    using that by (cases v) (auto simp add: instagram_request_def)
  have owner: "FieldQ (filter_kind v) ''username_owner'' v
        \<in> set (filters (twitter_request self text operator tkw))"
    if "tw_username_owner tkw = Some v" for v
    using that by (simp add: twitter_request_def)
  have timeline: "FieldQ (filter_kind v) ''username_timeline'' v
        \<in> set (filters (twitter_request self text operator tkw))"
    if "tw_username_timeline tkw = Some v" for v
    using that by (simp add: twitter_request_def)
  have diff: "filters (twitter_request self text operator tkw) = [FieldQ ''term'' ''username_owner'' (FStr [])]"
    if "tw_username_owner tkw = Some (FStr []) \<and> tw_username_timeline tkw = None"
    using that by (simp add: twitter_request_def filter_kind_def)
  show ?thesis
  proof (intro conjI allI impI)
    assume a: "ig_username kw = None \<or> ig_username kw = Some (FStr []) \<or> ig_username kw = Some (FList [])"
    show "snd (instagram_u_search_post self text operator kw w)
        = w @ [instagram_request self text operator kw]" by (rule ig)
    show "filters (instagram_request self text operator kw) = []" by (rule nofilter [OF a])
    show "instagram_u_search_post self text operator kw w
        = instagram_u_search_post self text operator (kw\<lparr>ig_username := None\<rparr>) w"
      by (rule same_call [OF a])
  next
    fix v assume a: "ig_username kw = Some v \<and> v \<noteq> FStr [] \<and> v \<noteq> FList []"
    show "snd (instagram_u_search_post self text operator kw w)
        = w @ [instagram_request self text operator kw]" by (rule ig)
    show "filters (instagram_request self text operator kw) = [FieldQ (filter_kind v) ''username'' v]"
      by (rule withfilter [OF a])
  next
    show "snd (twitter_u_search_post self text operator tkw w)
      = w @ [twitter_request self text operator tkw]" by (rule tw)
  next
    fix v assume "tw_username_owner tkw = Some v"
    then show "FieldQ (filter_kind v) ''username_owner'' v
        \<in> set (filters (twitter_request self text operator tkw))" by (rule owner)
  next
    fix v assume "tw_username_timeline tkw = Some v"
    then show "FieldQ (filter_kind v) ''username_timeline'' v
        \<in> set (filters (twitter_request self text operator tkw))" by (rule timeline)
  next
    assume a: "tw_username_owner tkw = Some (FStr []) \<and> tw_username_timeline tkw = None
      \<and> ig_username kw = Some (FStr [])"
    show "filters (twitter_request self text operator tkw) = [FieldQ ''term'' ''username_owner'' (FStr [])]"
      using a by (intro diff) simp
    show "filters (instagram_request self text operator kw) = []"
      using a by (intro nofilter) simp
  qed
qed

theorem empty_username_instagram_vs_twitter_witness:
  "((ig_username demo_instagram_kwargs = None
      \<or> ig_username demo_instagram_kwargs = Some (FStr [])
      \<or> ig_username demo_instagram_kwargs = Some (FList []))
    \<and> snd (instagram_u_search_post demo_self (JStr ''happy'') ''and'' demo_instagram_kwargs [])
        = [] @ [instagram_request demo_self (JStr ''happy'') ''and'' demo_instagram_kwargs]
    \<and> filters (instagram_request demo_self (JStr ''happy'') ''and'' demo_instagram_kwargs) = []
    \<and> instagram_u_search_post demo_self (JStr ''happy'') ''and'' demo_instagram_kwargs []
        = instagram_u_search_post demo_self (JStr ''happy'') ''and''
            (demo_instagram_kwargs\<lparr>ig_username := None\<rparr>) [])
 \<and> ((tw_username_owner (demo_twitter_kwargs\<lparr>tw_username_owner := Some (FStr [])\<rparr>)
        = Some (FStr [])
      \<and> tw_username_timeline (demo_twitter_kwargs\<lparr>tw_username_owner := Some (FStr [])\<rparr>)
        = None
      \<and> ig_username demo_instagram_kwargs = Some (FStr []))
    \<and> filters (twitter_request demo_self (JStr ''happy'') ''and''
          (demo_twitter_kwargs\<lparr>tw_username_owner := Some (FStr [])\<rparr>))
        = [FieldQ ''term'' ''username_owner'' (FStr [])]
    \<and> filters (instagram_request demo_self (JStr ''happy'') ''and'' demo_instagram_kwargs) = [])"
proof -
  have g: "ig_username demo_instagram_kwargs = None
      \<or> ig_username demo_instagram_kwargs = Some (FStr [])
      \<or> ig_username demo_instagram_kwargs = Some (FList [])"
    by (simp add: demo_instagram_kwargs_def)
  have h: "tw_username_owner (demo_twitter_kwargs\<lparr>tw_username_owner := Some (FStr [])\<rparr>)
        = Some (FStr [])
      \<and> tw_username_timeline (demo_twitter_kwargs\<lparr>tw_username_owner := Some (FStr [])\<rparr>)
        = None
      \<and> ig_username demo_instagram_kwargs = Some (FStr [])"
    by (simp add: demo_twitter_kwargs_def demo_instagram_kwargs_def)
  note T = empty_username_instagram_vs_twitter
    [where self = demo_self and ?text = "JStr ''happy''" and operator = "''and''"
       and kw = demo_instagram_kwargs
       and tkw = "demo_twitter_kwargs\<lparr>tw_username_owner := Some (FStr [])\<rparr>" and w = "[]"]
  show ?thesis
    apply (intro conjI)
          apply (rule g)
         apply (rule T [THEN conjunct1, rule_format, OF g, THEN conjunct1])
        apply (rule T [THEN conjunct1, rule_format, OF g, THEN conjunct2, THEN conjunct1])
       apply (rule T [THEN conjunct1, rule_format, OF g, THEN conjunct2, THEN conjunct2])
        apply (rule h [THEN conjunct1])
       apply (rule h [THEN conjunct2, THEN conjunct1])
      apply (rule h [THEN conjunct2, THEN conjunct2])
     apply (rule T [THEN conjunct2, THEN conjunct2, THEN conjunct2, THEN conjunct2,
          THEN conjunct2, rule_format, OF h, THEN conjunct1])
    apply (rule T [THEN conjunct2, THEN conjunct2, THEN conjunct2, THEN conjunct2,
          THEN conjunct2, rule_format, OF h, THEN conjunct2])
    done
qed

end
